theory Spec2Isabelle
  imports Main
begin

section \<open>Data model of tensor\_wrapper.py\<close>

text \<open>
  Python exceptions raised by the module or by the interpreter on its behalf.
  The spec's ValidationError is \<open>ValueError\<close>, its TypeMismatchError and RankError are
  \<open>TypeError\<close>, its ScalarRequiredError is the failed \<open>assert\<close> of \<open>item\<close>.
  Assertions are enabled, as they are unless the interpreter runs with \<open>-O\<close>.
\<close>

datatype py_error =
    ValueError string
  | TypeError string
  | NotImplementedError
  | AssertionError string
  | AttributeError string
  | OverflowError string
  | RecursionError
  | EngineError string

datatype dtype = np_bool | np_int32 | np_float32 | np_other string

text \<open>A Python float as mantissa and binary exponent, or one of the special values.\<close>

datatype pyfloat = Finite int int | PosInf | NegInf | NaN

datatype scalar = PyBool bool | PyInt int | PyFloat pyfloat

type_synonym addr = nat

text \<open>
  A primitive tensor (\<open>TensorBase\<close>) as this module sees it: through \<open>dtype\<close>,
  \<open>shape\<close>, \<open>device\<close> and \<open>numpy()\<close> (the elements in row-major order).
\<close>

record tensor =
  t_dtype :: dtype
  t_shape :: "nat list"
  t_device :: string
  t_data :: "scalar list"

text \<open>
  Python values that reach the module: a wrapper object (by identity), a primitive tensor
  (by identity), a raw scalar, a raw sequence of scalars, \<open>None\<close>, \<open>NotImplemented\<close>.
\<close>

datatype pyval =
    Wrapper addr
  | Prim addr
  | PyScalar scalar
  | PySeq "scalar list"
  | PyNone
  | NotImplemented

datatype wclass = GenericTensorWrapper | TensorWrapper

record wobj =
  w_class :: wclass
  w_wrapped :: pyval

text \<open>Operation descriptors of \<open>builtin\<close>, with the parameters this module sets.\<close>

datatype opdesc =
    Elemwise string
  | MatrixMul bool bool string string
  | Broadcast
  | Reshape "nat option"
  | Reduce string int

text \<open>
  The state: the wrapper objects with their \<open>__wrapped__\<close> slot, the primitive tensors
  of the engine, the next unused object identity, and the sequence of \<open>apply\<close>
  invocations issued by this module.
\<close>

record pystate =
  wrappers :: "addr \<rightharpoonup> wobj"
  prims :: "addr \<rightharpoonup> tensor"
  next_id :: addr
  calls :: "(opdesc \<times> pyval list) list"

type_synonym 'a M = "pystate \<Rightarrow> (py_error + 'a) \<times> pystate"

definition ret :: "'a \<Rightarrow> 'a M" where
  "ret v s = (Inr v, s)"

definition raise :: "py_error \<Rightarrow> 'a M" where
  "raise e s = (Inl e, s)"

definition lift :: "py_error + 'a \<Rightarrow> 'a M" where
  "lift r s = (r, s)"

definition bnd :: "'a M \<Rightarrow> ('a \<Rightarrow> 'b M) \<Rightarrow> 'b M" where
  "bnd m f s = (case m s of (Inl e, s') \<Rightarrow> (Inl e, s') | (Inr v, s') \<Rightarrow> f v s')"

text \<open>
  The collaborators imported from other modules (\<open>apply\<close>, \<open>utils.convert_inputs\<close>,
  \<open>utils.astype\<close>, \<open>Const\<close>, \<open>as_raw_tensor\<close>, \<open>Tensor\<close>) are parameters. Each may
  fail and may allocate objects.
\<close>

record env =
  apply_c :: "opdesc \<Rightarrow> pyval list \<Rightarrow> pyval list M"
  convert_inputs_c :: "pyval list \<Rightarrow> pyval list M"
  astype_c :: "pyval \<Rightarrow> dtype \<Rightarrow> pyval M"
  Const_c :: "int list \<Rightarrow> dtype \<Rightarrow> string \<Rightarrow> pyval \<Rightarrow> pyval list M"
  as_raw_tensor_c :: "pyval \<Rightarrow> dtype option \<Rightarrow> string option \<Rightarrow> tensor M"

text \<open>A collaborator runs on the objects; the record of invocations is not its to change.\<close>

definition ext :: "'a M \<Rightarrow> 'a M" where
  "ext c s = (case c s of (r, s') \<Rightarrow> (r, s'\<lparr>calls := calls s\<rparr>))"

text \<open>\<open>apply(op, *args)\<close>: the invocation is recorded, then the engine runs.\<close>

definition apply_op :: "env \<Rightarrow> opdesc \<Rightarrow> pyval list \<Rightarrow> pyval list M" where
  "apply_op E op args s =
     (case apply_c E op args s of (r, s') \<Rightarrow> (r, s'\<lparr>calls := calls s @ [(op, args)]\<rparr>))"

text \<open>The tuple pattern \<open>(result,) = ...\<close> raises \<open>ValueError\<close> unless there is one element.\<close>

definition unpack1 :: "pyval list \<Rightarrow> pyval M" where
  "unpack1 rs = (case rs of [r] \<Rightarrow> ret r | _ \<Rightarrow> raise (ValueError ''unpack''))"

section \<open>Attributes of a wrapper\<close>

text \<open>
  \<open>dtype\<close>, \<open>shape\<close>, \<open>device\<close> and \<open>numpy()\<close> of a wrapper forward to
  \<open>__wrapped__\<close>, whatever object that is: a primitive tensor answers, another wrapper
  forwards in turn, and a raw scalar, a raw sequence, \<open>None\<close> and \<open>NotImplemented\<close>
  have none of these attributes. A chain of wrappers can be circular (after \<open>_reset\<close>), so
  the lookup counts its nesting: beyond the interpreter's recursion limit it ends in
  \<open>RecursionError\<close>.
\<close>

datatype lookup = Found tensor | NoAttribute | TooDeep

definition recursion_limit :: nat where
  "recursion_limit = 1000"

primrec forward :: "nat \<Rightarrow> pystate \<Rightarrow> pyval \<Rightarrow> lookup" where
  "forward 0 s v =
     (case v of
        Prim p \<Rightarrow> (case prims s p of Some t \<Rightarrow> Found t | None \<Rightarrow> NoAttribute)
      | Wrapper a \<Rightarrow> TooDeep
      | _ \<Rightarrow> NoAttribute)"
| "forward (Suc n) s v =
     (case v of
        Prim p \<Rightarrow> (case prims s p of Some t \<Rightarrow> Found t | None \<Rightarrow> NoAttribute)
      | Wrapper a \<Rightarrow>
          (case wrappers s a of
             Some w \<Rightarrow> forward n s (w_wrapped w)
           | None \<Rightarrow> NoAttribute)
      | _ \<Rightarrow> NoAttribute)"

text \<open>The tensor that a value denotes, when the lookup finds one.\<close>

definition prim_of :: "pystate \<Rightarrow> pyval \<Rightarrow> tensor option" where
  "prim_of s v = (case forward recursion_limit s v of Found t \<Rightarrow> Some t | _ \<Rightarrow> None)"

definition attr :: "(tensor \<Rightarrow> 'a) \<Rightarrow> string \<Rightarrow> pyval \<Rightarrow> 'a M" where
  "attr sel name v s =
     (case forward recursion_limit s v of
        Found t \<Rightarrow> (Inr (sel t), s)
      | NoAttribute \<Rightarrow> (Inl (AttributeError name), s)
      | TooDeep \<Rightarrow> (Inl RecursionError, s))"

definition get_dtype :: "pyval \<Rightarrow> dtype M" where
  "get_dtype = attr t_dtype ''dtype''"

definition get_shape :: "pyval \<Rightarrow> nat list M" where
  "get_shape = attr t_shape ''shape''"

definition get_device :: "pyval \<Rightarrow> string M" where
  "get_device = attr t_device ''device''"

section \<open>The free functions\<close>

definition elwise :: "env \<Rightarrow> pyval list \<Rightarrow> string \<Rightarrow> pyval M" where
  "elwise E args mode =
     bnd (ext (convert_inputs_c E args)) (\<lambda>args'.
     bnd (apply_op E (Elemwise mode) args') unpack1)"

definition matmul :: "env \<Rightarrow> pyval \<Rightarrow> pyval \<Rightarrow> pyval M" where
  "matmul E inp1 inp2 =
     bnd (ext (convert_inputs_c E [inp1, inp2])) (\<lambda>cs.
       case cs of
         [a, b] \<Rightarrow> bnd (apply_op E (MatrixMul False False ''DEFAULT'' ''DEFAULT'') [a, b]) unpack1
       | _ \<Rightarrow> raise (ValueError ''unpack''))"

subsection \<open>Formatting of integers in messages\<close>

definition digit :: "nat \<Rightarrow> char" where
  "digit d = ''0123456789'' ! d"

fun show_nat :: "nat \<Rightarrow> string" where
  "show_nat n = (if n < 10 then [digit n] else show_nat (n div 10) @ [digit (n mod 10)])"

declare show_nat.simps [simp del]

definition show_int :: "int \<Rightarrow> string" where
  "show_int i = (if i < 0 then CHR ''-'' # show_nat (nat (- i)) else show_nat (nat i))"

definition msg_neg :: "nat \<Rightarrow> int \<Rightarrow> string" where
  "msg_neg i s = ''expect shape['' @ show_nat i @ ''] >= -1, got '' @ show_int s"

definition msg_multi :: "nat \<Rightarrow> nat \<Rightarrow> string" where
  "msg_multi j i = ''multiple -1 in shape: '' @ show_nat j @ '' & '' @ show_nat i"

subsection \<open>reshape\<close>

text \<open>
  The loop of \<open>_reshape\<close> over \<open>enumerate(shape)\<close>: \<open>i\<close> is the running index and
  \<open>u\<close> the value of \<open>unspec_axis\<close>.
\<close>

fun reshape_scan :: "nat \<Rightarrow> nat option \<Rightarrow> int list \<Rightarrow> py_error + nat option" where
  "reshape_scan i u [] = Inr u"
| "reshape_scan i u (s # ss) =
     (if s < 0 then
        (if s \<noteq> - 1 then Inl (ValueError (msg_neg i s))
         else (case u of
                 Some j \<Rightarrow> Inl (ValueError (msg_multi j i))
               | None \<Rightarrow> reshape_scan (Suc i) (Some i) ss))
      else reshape_scan (Suc i) u ss)"

text \<open>
  \<open>_reshape(x, shape)\<close> from line 57 on: lines 54 to 56 have turned \<open>shape\<close> into a
  tuple of Python integers, which is the argument here.
\<close>

definition reshape :: "env \<Rightarrow> pyval \<Rightarrow> int list \<Rightarrow> pyval M" where
  "reshape E x shape =
     (case reshape_scan 0 None shape of
        Inl e \<Rightarrow> raise e
      | Inr unspec_axis \<Rightarrow>
          bnd (get_device x) (\<lambda>dev.
          bnd (ext (Const_c E shape np_int32 dev x)) (\<lambda>cs.
          bnd (unpack1 cs) (\<lambda>shape_t.
          bnd (apply_op E (Reshape unspec_axis) [x, shape_t]) unpack1))))"



text \<open>
  \<open>flatten\<close> is \<open>self.reshape(-1)\<close>: the method \<open>reshape\<close> receives \<open>args = (-1,)\<close>,
  whose only element is not a sequence, so it passes the tuple on to \<open>_reshape\<close>.
\<close>

definition flatten :: "env \<Rightarrow> pyval \<Rightarrow> pyval M" where
  "flatten E self = reshape E self [- 1]"

subsection \<open>Operator factories\<close>

definition unary_elwise :: "env \<Rightarrow> string \<Rightarrow> pyval \<Rightarrow> pyval M" where
  "unary_elwise E mode self = elwise E [self] mode"

definition binary_elwise :: "env \<Rightarrow> string \<Rightarrow> bool \<Rightarrow> pyval \<Rightarrow> pyval \<Rightarrow> pyval M" where
  "binary_elwise E mode rv self val =
     (if \<not> rv then elwise E [self, val] mode else elwise E [val, self] mode)"

definition logical_unary_elwise :: "env \<Rightarrow> string \<Rightarrow> pyval \<Rightarrow> pyval M" where
  "logical_unary_elwise E mode self =
     bnd (get_dtype self) (\<lambda>d.
       if d \<noteq> np_bool then raise (TypeError (mode @ '' requires a bool tensor''))
       else elwise E [self] mode)"

text \<open>
  The test is \<open>self.dtype != np.bool_ or value.dtype != np.bool_\<close>: \<open>value.dtype\<close> is
  read only when the left operand is boolean.
\<close>

definition logical_binary_elwise ::
  "env \<Rightarrow> string \<Rightarrow> bool \<Rightarrow> pyval \<Rightarrow> pyval \<Rightarrow> pyval M" where
  "logical_binary_elwise E mode rv self val =
     bnd (get_dtype self) (\<lambda>d1.
       if d1 \<noteq> np_bool then raise (TypeError (mode @ '' requires 2 bool tensors''))
       else bnd (get_dtype val) (\<lambda>d2.
         if d2 \<noteq> np_bool then raise (TypeError (mode @ '' requires 2 bool tensors''))
         else if \<not> rv then elwise E [self, val] mode else elwise E [val, self] mode))"

definition reduce :: "env \<Rightarrow> string \<Rightarrow> pyval \<Rightarrow> int option \<Rightarrow> pyval M" where
  "reduce E mode self axis =
     bnd (case axis of
            None \<Rightarrow> bnd (flatten E self) (\<lambda>inp. ret (inp, 0))
          | Some a \<Rightarrow> ret (self, a)) (\<lambda>(inp, ax).
     bnd (ext (convert_inputs_c E [inp])) (\<lambda>cs.
     bnd (unpack1 cs) (\<lambda>r.
     bnd (apply_op E (Reduce mode ax) [r]) unpack1)))"

text \<open>The five reductions of the mixin.\<close>

definition sum_m :: "env \<Rightarrow> pyval \<Rightarrow> int option \<Rightarrow> pyval M" where
  "sum_m E = reduce E ''SUM''"

definition prod_m :: "env \<Rightarrow> pyval \<Rightarrow> int option \<Rightarrow> pyval M" where
  "prod_m E = reduce E ''PRODUCT''"

definition min_m :: "env \<Rightarrow> pyval \<Rightarrow> int option \<Rightarrow> pyval M" where
  "min_m E = reduce E ''MIN''"

definition max_m :: "env \<Rightarrow> pyval \<Rightarrow> int option \<Rightarrow> pyval M" where
  "max_m E = reduce E ''MAX''"

definition mean_m :: "env \<Rightarrow> pyval \<Rightarrow> int option \<Rightarrow> pyval M" where
  "mean_m E = reduce E ''MEAN''"

section \<open>Wrapper objects\<close>

definition new_prim :: "tensor \<Rightarrow> pyval M" where
  "new_prim t s =
     (Inr (Prim (next_id s)),
      s\<lparr>prims := (prims s)(next_id s \<mapsto> t), next_id := Suc (next_id s)\<rparr>)"

definition new_wrapper :: "wclass \<Rightarrow> pyval \<Rightarrow> pyval M" where
  "new_wrapper c data s =
     (Inr (Wrapper (next_id s)),
      s\<lparr>wrappers := (wrappers s)(next_id s \<mapsto> \<lparr>w_class = c, w_wrapped = data\<rparr>),
        next_id := Suc (next_id s)\<rparr>)"

text \<open>In a well-formed state the identities from \<open>next_id\<close> on are unused.\<close>

definition wf_state :: "pystate \<Rightarrow> bool" where
  "wf_state s = (\<forall>a\<ge>next_id s. prims s a = None \<and> wrappers s a = None)"

text \<open>\<open>other.__wrapped__\<close>\<close>

definition get_wrapped :: "pyval \<Rightarrow> pyval M" where
  "get_wrapped v s =
     (case v of
        Wrapper a \<Rightarrow>
          (case wrappers s a of
             Some w \<Rightarrow> (Inr (w_wrapped w), s)
           | None \<Rightarrow> (Inl (AttributeError ''__wrapped__''), s))
      | _ \<Rightarrow> (Inl (AttributeError ''__wrapped__''), s))"

text \<open>\<open>self.__wrapped__ = v\<close>\<close>

definition set_wrapped :: "addr \<Rightarrow> pyval \<Rightarrow> unit M" where
  "set_wrapped a v s =
     (case wrappers s a of
        Some w \<Rightarrow> (Inr (), s\<lparr>wrappers := (wrappers s)(a \<mapsto> w\<lparr>w_wrapped := v\<rparr>)\<rparr>)
      | None \<Rightarrow> (Inl (AttributeError ''self''), s))"

definition is_wrapper :: "pyval \<Rightarrow> bool" where
  "is_wrapper v = (case v of Wrapper _ \<Rightarrow> True | _ \<Rightarrow> False)"

definition is_prim :: "pyval \<Rightarrow> bool" where
  "is_prim v = (case v of Prim _ \<Rightarrow> True | _ \<Rightarrow> False)"

text \<open>
  \<open>TensorWrapper.__init__\<close>. Modelled from the spec: the constructor \<open>Tensor\<close> of
  module \<open>.tensor\<close>, which is not in this file, "materializes a brand-new underlying
  tensor" from the raw tensor it is given (\<open>new_prim\<close>).
\<close>

definition TensorWrapper_init ::
  "env \<Rightarrow> pyval \<Rightarrow> dtype option \<Rightarrow> string option \<Rightarrow> pyval M" where
  "TensorWrapper_init E data dt dev =
     (if is_wrapper data then
        bnd (get_wrapped data) (\<lambda>w. new_wrapper TensorWrapper w)
      else if \<not> is_prim data then
        (if data = PyNone then raise (AssertionError ''Cannot init a tensor with data as None'')
         else bnd (ext (as_raw_tensor_c E data dt dev)) (\<lambda>raw.
              bnd (new_prim raw) (\<lambda>t. new_wrapper TensorWrapper t)))
      else new_wrapper TensorWrapper data)"

text \<open>
  \<open>_reset\<close>, dispatched on the class of \<open>self\<close>. In \<open>TensorWrapper._reset\<close> the last
  branch builds a wrapper of the same class and calls \<open>_reset\<close> again, which then takes
  the first branch.
\<close>

definition reset :: "env \<Rightarrow> pyval \<Rightarrow> pyval \<Rightarrow> unit M" where
  "reset E self other s =
     (case self of
        Wrapper a \<Rightarrow>
          (case wrappers s a of
             Some w \<Rightarrow>
               (case w_class w of
                  GenericTensorWrapper \<Rightarrow>
                    (if \<not> is_wrapper other then raise (TypeError ''type(other)'') s
                     else bnd (get_wrapped other) (set_wrapped a) s)
                | TensorWrapper \<Rightarrow>
                    (if is_wrapper other then bnd (get_wrapped other) (set_wrapped a) s
                     else if is_prim other then set_wrapped a other s
                     else bnd (get_dtype self) (\<lambda>d.
                          bnd (get_device self) (\<lambda>dev.
                          bnd (TensorWrapper_init E other (Some d) (Some dev)) (\<lambda>nw.
                          bnd (get_wrapped nw) (set_wrapped a)))) s))
           | None \<Rightarrow> (Inl (AttributeError ''_reset''), s))
      | _ \<Rightarrow> (Inl (AttributeError ''_reset''), s))"

definition inplace :: "env \<Rightarrow> (pyval \<Rightarrow> pyval \<Rightarrow> pyval M) \<Rightarrow> pyval \<Rightarrow> pyval \<Rightarrow> pyval M" where
  "inplace E f self val =
     bnd (f self val) (\<lambda>result.
       if result = NotImplemented then raise NotImplementedError
       else bnd (reset E self result) (\<lambda>_. ret self))"

section \<open>Methods of ArrayMethodMixin\<close>

text \<open>
  \<open>astype\<close> as a method of the value that \<open>_elwise\<close> returned: a wrapper has the
  mixin's method, which is \<open>utils.astype\<close>; the other values have no such method.
\<close>

definition astype :: "env \<Rightarrow> pyval \<Rightarrow> dtype \<Rightarrow> pyval M" where
  "astype E self d =
     (if is_wrapper self then ext (astype_c E self d) else raise (AttributeError ''astype''))"

definition dunder_lt :: "env \<Rightarrow> pyval \<Rightarrow> pyval \<Rightarrow> pyval M" where
  "dunder_lt E self val = bnd (elwise E [self, val] ''LT'') (\<lambda>r. astype E r np_bool)"

definition dunder_le :: "env \<Rightarrow> pyval \<Rightarrow> pyval \<Rightarrow> pyval M" where
  "dunder_le E self val = bnd (elwise E [self, val] ''LEQ'') (\<lambda>r. astype E r np_bool)"

definition dunder_gt :: "env \<Rightarrow> pyval \<Rightarrow> pyval \<Rightarrow> pyval M" where
  "dunder_gt E self val = bnd (elwise E [val, self] ''LT'') (\<lambda>r. astype E r np_bool)"

definition dunder_ge :: "env \<Rightarrow> pyval \<Rightarrow> pyval \<Rightarrow> pyval M" where
  "dunder_ge E self val = bnd (elwise E [val, self] ''LEQ'') (\<lambda>r. astype E r np_bool)"

definition dunder_eq :: "env \<Rightarrow> pyval \<Rightarrow> pyval \<Rightarrow> pyval M" where
  "dunder_eq E self val = bnd (elwise E [self, val] ''EQ'') (\<lambda>r. astype E r np_bool)"

definition dunder_ne :: "env \<Rightarrow> pyval \<Rightarrow> pyval \<Rightarrow> pyval M" where
  "dunder_ne E self val =
     bnd (bnd (elwise E [self, val] ''EQ'') (\<lambda>r. astype E r np_bool)) (\<lambda>b.
       elwise E [b] ''NOT'')"

definition dunder_pos :: "pyval \<Rightarrow> pyval M" where
  "dunder_pos self = ret self"

definition dunder_invert :: "env \<Rightarrow> pyval \<Rightarrow> pyval M" where
  "dunder_invert E = logical_unary_elwise E ''NOT''"

definition dunder_add :: "env \<Rightarrow> pyval \<Rightarrow> pyval \<Rightarrow> pyval M" where
  "dunder_add E = binary_elwise E ''ADD'' False"

definition dunder_and :: "env \<Rightarrow> pyval \<Rightarrow> pyval \<Rightarrow> pyval M" where
  "dunder_and E = logical_binary_elwise E ''AND'' False"

definition dunder_or :: "env \<Rightarrow> pyval \<Rightarrow> pyval \<Rightarrow> pyval M" where
  "dunder_or E = logical_binary_elwise E ''OR'' False"

definition dunder_xor :: "env \<Rightarrow> pyval \<Rightarrow> pyval \<Rightarrow> pyval M" where
  "dunder_xor E = logical_binary_elwise E ''XOR'' False"

definition dunder_rand :: "env \<Rightarrow> pyval \<Rightarrow> pyval \<Rightarrow> pyval M" where
  "dunder_rand E = logical_binary_elwise E ''AND'' True"

definition dunder_ror :: "env \<Rightarrow> pyval \<Rightarrow> pyval \<Rightarrow> pyval M" where
  "dunder_ror E = logical_binary_elwise E ''OR'' True"

definition dunder_rxor :: "env \<Rightarrow> pyval \<Rightarrow> pyval \<Rightarrow> pyval M" where
  "dunder_rxor E = logical_binary_elwise E ''XOR'' True"

definition dunder_sub :: "env \<Rightarrow> pyval \<Rightarrow> pyval \<Rightarrow> pyval M" where
  "dunder_sub E = binary_elwise E ''SUB'' False"

definition dunder_mul :: "env \<Rightarrow> pyval \<Rightarrow> pyval \<Rightarrow> pyval M" where
  "dunder_mul E = binary_elwise E ''MUL'' False"

definition dunder_truediv :: "env \<Rightarrow> pyval \<Rightarrow> pyval \<Rightarrow> pyval M" where
  "dunder_truediv E = binary_elwise E ''TRUE_DIV'' False"

definition dunder_floordiv :: "env \<Rightarrow> pyval \<Rightarrow> pyval \<Rightarrow> pyval M" where
  "dunder_floordiv E = binary_elwise E ''FLOOR_DIV'' False"

definition dunder_mod :: "env \<Rightarrow> pyval \<Rightarrow> pyval \<Rightarrow> pyval M" where
  "dunder_mod E = binary_elwise E ''MOD'' False"

definition dunder_pow :: "env \<Rightarrow> pyval \<Rightarrow> pyval \<Rightarrow> pyval M" where
  "dunder_pow E = binary_elwise E ''POW'' False"

definition dunder_lshift :: "env \<Rightarrow> pyval \<Rightarrow> pyval \<Rightarrow> pyval M" where
  "dunder_lshift E = binary_elwise E ''SHL'' False"

definition dunder_rshift :: "env \<Rightarrow> pyval \<Rightarrow> pyval \<Rightarrow> pyval M" where
  "dunder_rshift E = binary_elwise E ''SHR'' False"

definition dunder_matmul :: "env \<Rightarrow> pyval \<Rightarrow> pyval \<Rightarrow> pyval M" where
  "dunder_matmul E self other = matmul E self other"

definition dunder_iadd :: "env \<Rightarrow> pyval \<Rightarrow> pyval \<Rightarrow> pyval M" where
  "dunder_iadd E = inplace E (dunder_add E)"

text \<open>The thirteen in-place operators, \<open>__iadd__\<close> to \<open>__ixor__\<close>, in the order of the class.\<close>

definition inplace_operators :: "env \<Rightarrow> (pyval \<Rightarrow> pyval \<Rightarrow> pyval M) list" where
  "inplace_operators E =
     map (inplace E)
       [dunder_add E, dunder_sub E, dunder_mul E, dunder_matmul E, dunder_truediv E,
        dunder_floordiv E, dunder_mod E, dunder_pow E, dunder_lshift E, dunder_rshift E,
        dunder_and E, dunder_or E, dunder_xor E]"

definition dunder_len :: "pyval \<Rightarrow> int M" where
  "dunder_len self =
     bnd (get_shape self) (\<lambda>shape.
       case shape of [] \<Rightarrow> raise (TypeError ''ndim is 0'') | n # _ \<Rightarrow> ret (int n))"

text \<open>
  \<open>size\<close> is \<open>np.prod(self.shape).item()\<close>, the product of the extents (1 for the
  empty shape).
\<close>

definition size_p :: "pyval \<Rightarrow> nat M" where
  "size_p self = bnd (get_shape self) (\<lambda>shape. ret (prod_list shape))"

text \<open>
  \<open>ndarray.item()\<close> on the array that \<open>numpy()\<close> returns: the element of an array of
  one element, \<open>ValueError\<close> otherwise.
\<close>

definition numpy_item :: "pyval \<Rightarrow> scalar M" where
  "numpy_item self =
     bnd (attr t_data ''numpy'' self) (\<lambda>d.
       case d of [v] \<Rightarrow> ret v
       | _ \<Rightarrow> raise (ValueError ''can only convert an array of size 1 to a Python scalar''))"

text \<open>\<open>item()\<close> without arguments.\<close>

definition item :: "pyval \<Rightarrow> scalar M" where
  "item self =
     bnd (size_p self) (\<lambda>n.
       if n \<noteq> 1 then raise (AssertionError []) else numpy_item self)"

subsection \<open>Native conversions of a Python scalar\<close>

definition py_index :: "scalar \<Rightarrow> py_error + int" where
  "py_index v =
     (case v of
        PyBool b \<Rightarrow> Inr (if b then 1 else 0)
      | PyInt i \<Rightarrow> Inr i
      | PyFloat _ \<Rightarrow> Inl (AttributeError ''__index__''))"

definition py_bool :: "scalar \<Rightarrow> py_error + bool" where
  "py_bool v =
     (case v of
        PyBool b \<Rightarrow> Inr b
      | PyInt i \<Rightarrow> Inr (i \<noteq> 0)
      | PyFloat f \<Rightarrow> Inr (case f of Finite m e \<Rightarrow> m \<noteq> 0 | _ \<Rightarrow> True))"

text \<open>\<open>int\<close> of a float truncates towards zero.\<close>

definition float_trunc :: "int \<Rightarrow> int \<Rightarrow> int" where
  "float_trunc m e =
     (if 0 \<le> e then m * 2 ^ nat e
      else if 0 \<le> m then m div 2 ^ nat (- e)
      else - ((- m) div 2 ^ nat (- e)))"

definition py_int :: "scalar \<Rightarrow> py_error + int" where
  "py_int v =
     (case v of
        PyBool b \<Rightarrow> Inr (if b then 1 else 0)
      | PyInt i \<Rightarrow> Inr i
      | PyFloat f \<Rightarrow>
          (case f of
             Finite m e \<Rightarrow> Inr (float_trunc m e)
           | NaN \<Rightarrow> Inl (ValueError ''cannot convert float NaN to integer'')
           | _ \<Rightarrow> Inl (OverflowError ''cannot convert float infinity to integer'')))"

text \<open>
  \<open>float\<close> and \<open>complex\<close> of an integer round it to the nearest float; the rounding
  \<open>rnd\<close> is a parameter.
\<close>

definition py_float :: "(int \<Rightarrow> pyfloat) \<Rightarrow> scalar \<Rightarrow> py_error + pyfloat" where
  "py_float rnd v =
     (case v of
        PyBool b \<Rightarrow> Inr (Finite (if b then 1 else 0) 0)
      | PyInt i \<Rightarrow> Inr (rnd i)
      | PyFloat f \<Rightarrow> Inr f)"

definition py_complex :: "(int \<Rightarrow> pyfloat) \<Rightarrow> scalar \<Rightarrow> py_error + pyfloat \<times> pyfloat" where
  "py_complex rnd v =
     (case py_float rnd v of Inl e \<Rightarrow> Inl e | Inr f \<Rightarrow> Inr (f, Finite 0 0))"

text \<open>The five conversions: \<open>item()\<close>, then the native conversion of the element.\<close>

definition conversion :: "(scalar \<Rightarrow> py_error + 'r) \<Rightarrow> pyval \<Rightarrow> 'r M" where
  "conversion native self = bnd (item self) (\<lambda>v. lift (native v))"

definition dunder_index :: "pyval \<Rightarrow> int M" where
  "dunder_index = conversion py_index"

definition dunder_bool :: "pyval \<Rightarrow> bool M" where
  "dunder_bool = conversion py_bool"

definition dunder_int :: "pyval \<Rightarrow> int M" where
  "dunder_int = conversion py_int"

definition dunder_float :: "(int \<Rightarrow> pyfloat) \<Rightarrow> pyval \<Rightarrow> pyfloat M" where
  "dunder_float rnd = conversion (py_float rnd)"

definition dunder_complex :: "(int \<Rightarrow> pyfloat) \<Rightarrow> pyval \<Rightarrow> (pyfloat \<times> pyfloat) M" where
  "dunder_complex rnd = conversion (py_complex rnd)"

section \<open>Comparing outcomes by value\<close>

text \<open>
  Two runs have the same outcome when they fail with the same error or return values that
  denote the same tensor (each in its own final state). Three conditions on the
  collaborators say that the engine computes on values: the primitive reshape to
  \<open>(-1,)\<close>, applied to a tensor that the same reshape has produced, succeeds and gives
  a tensor of the same value (\<open>flat_fixed\<close>); \<open>convert_inputs\<close> returns a tensor of
  the same value for a tensor (\<open>conv_keeps\<close>); the single output of a primitive on one
  tensor depends only on the value of that tensor (\<open>apply_by_value\<close>).
\<close>

definition same_outcome ::
  "(py_error + pyval) \<times> pystate \<Rightarrow> (py_error + pyval) \<times> pystate \<Rightarrow> bool" where
  "same_outcome p q =
     (case (fst p, fst q) of
        (Inr a, Inr b) \<Rightarrow> prim_of (snd p) a \<noteq> None \<and> prim_of (snd p) a = prim_of (snd q) b
      | (Inl e, Inl e') \<Rightarrow> e = e'
      | _ \<Rightarrow> False)"

definition flat_fixed :: "env \<Rightarrow> bool" where
  "flat_fixed E =
     (\<forall>x s dev c sA f s1.
        ext (Const_c E [- 1] np_int32 dev x) s = (Inr [c], sA) \<and>
        apply_op E (Reshape (Some 0)) [x, c] sA = (Inr [f], s1) \<longrightarrow>
        (\<exists>t c2 sC f2 s3.
           prim_of s1 f = Some t \<and>
           ext (Const_c E [- 1] np_int32 (t_device t) f) s1 = (Inr [c2], sC) \<and>
           apply_op E (Reshape (Some 0)) [f, c2] sC = (Inr [f2], s3) \<and>
           prim_of s3 f2 = Some t))"

definition conv_keeps :: "env \<Rightarrow> bool" where
  "conv_keeps E =
     (\<forall>v s t. prim_of s v = Some t \<longrightarrow>
        (\<exists>v' s'. ext (convert_inputs_c E [v]) s = (Inr [v'], s') \<and> prim_of s' v' = Some t))"

definition apply_by_value :: "env \<Rightarrow> opdesc \<Rightarrow> bool" where
  "apply_by_value E op =
     (\<forall>a sa b sb. prim_of sa a \<noteq> None \<and> prim_of sa a = prim_of sb b \<longrightarrow>
        same_outcome (bnd (apply_op E op [a]) unpack1 sa) (bnd (apply_op E op [b]) unpack1 sb))"

section \<open>A small engine to run the module on\<close>

text \<open>
  The theorems below hold for every collaborator. To evaluate the module on concrete
  inputs, \<open>demo_env\<close> supplies collaborators that compute on the tensors of the state and
  return each result in a new wrapper, and \<open>demo_state\<close> holds four tensors: an integer
  matrix (wrapper 0), a boolean vector (wrapper 2), a one-element integer vector
  (wrapper 4) and a float of rank 0 (wrapper 6).
\<close>

definition demo_int :: "scalar \<Rightarrow> int" where
  "demo_int v = (case py_int v of Inr i \<Rightarrow> i | Inl _ \<Rightarrow> 0)"

text \<open>
  The target shape of a reshape of \<open>n\<close> elements: the entries of the shape tensor, the
  one at \<open>unspec_axis\<close> replaced by the quotient of \<open>n\<close> by the product of the others.
\<close>

definition demo_shape :: "nat option \<Rightarrow> int list \<Rightarrow> nat \<Rightarrow> nat list" where
  "demo_shape u dims n =
     (case u of
        None \<Rightarrow> map nat dims
      | Some k \<Rightarrow> (map nat dims)[k := n div prod_list ((map nat dims)[k := 1])])"

fun demo_sem :: "opdesc \<Rightarrow> tensor list \<Rightarrow> py_error + tensor" where
  "demo_sem (Reshape u) [x, c] =
     Inr (x\<lparr>t_shape := demo_shape u (map demo_int (t_data c)) (length (t_data x))\<rparr>)"
| "demo_sem (Reduce m ax) [x] =
     Inr (x\<lparr>t_shape := [1], t_data := [PyInt (sum_list (map demo_int (t_data x)))]\<rparr>)"
| "demo_sem (Elemwise m) [x] =
     (if m = ''NOT'' then
        Inr (x\<lparr>t_data := map (\<lambda>a. PyBool (demo_int a = 0)) (t_data x)\<rparr>)
      else Inl (EngineError ''unsupported''))"
| "demo_sem (Elemwise m) [x, y] =
     (if m = ''ADD'' then
        Inr (x\<lparr>t_data := map2 (\<lambda>a b. PyInt (demo_int a + demo_int b)) (t_data x) (t_data y)\<rparr>)
      else if m = ''LT'' then
        Inr (x\<lparr>t_data := map2 (\<lambda>a b. PyBool (demo_int a < demo_int b)) (t_data x) (t_data y)\<rparr>)
      else if m = ''LEQ'' then
        Inr (x\<lparr>t_data := map2 (\<lambda>a b. PyBool (demo_int a \<le> demo_int b)) (t_data x) (t_data y)\<rparr>)
      else if m = ''EQ'' then
        Inr (x\<lparr>t_data := map2 (\<lambda>a b. PyBool (demo_int a = demo_int b)) (t_data x) (t_data y)\<rparr>)
      else Inl (EngineError ''unsupported''))"
| "demo_sem _ _ = Inl (EngineError ''unsupported'')"

definition demo_new :: "tensor \<Rightarrow> pyval M" where
  "demo_new t = bnd (new_prim t) (new_wrapper TensorWrapper)"

definition demo_apply :: "opdesc \<Rightarrow> pyval list \<Rightarrow> pyval list M" where
  "demo_apply op args s =
     (case those (map (prim_of s) args) of
        None \<Rightarrow> (Inl (EngineError ''tensor expected''), s)
      | Some ts \<Rightarrow>
          (case demo_sem op ts of
             Inl e \<Rightarrow> (Inl e, s)
           | Inr t \<Rightarrow> bnd (demo_new t) (\<lambda>w. ret [w]) s))"

definition demo_astype :: "pyval \<Rightarrow> dtype \<Rightarrow> pyval M" where
  "demo_astype v d s =
     (case prim_of s v of
        None \<Rightarrow> (Inl (EngineError ''tensor expected''), s)
      | Some t \<Rightarrow> demo_new (t\<lparr>t_dtype := d\<rparr>) s)"

definition demo_Const :: "int list \<Rightarrow> dtype \<Rightarrow> string \<Rightarrow> pyval \<Rightarrow> pyval list M" where
  "demo_Const shape d dev x =
     bnd (demo_new \<lparr>t_dtype = d, t_shape = [length shape], t_device = dev,
                    t_data = map PyInt shape\<rparr>) (\<lambda>w. ret [w])"

definition demo_raw :: "pyval \<Rightarrow> dtype option \<Rightarrow> string option \<Rightarrow> tensor M" where
  "demo_raw data dt dev =
     (case data of
        PyScalar v \<Rightarrow>
          ret \<lparr>t_dtype = (case dt of Some d \<Rightarrow> d | None \<Rightarrow> np_int32), t_shape = [],
               t_device = (case dev of Some n \<Rightarrow> n | None \<Rightarrow> ''cpu0''), t_data = [v]\<rparr>
      | PySeq vs \<Rightarrow>
          ret \<lparr>t_dtype = (case dt of Some d \<Rightarrow> d | None \<Rightarrow> np_int32), t_shape = [length vs],
               t_device = (case dev of Some n \<Rightarrow> n | None \<Rightarrow> ''cpu0''), t_data = vs\<rparr>
      | _ \<Rightarrow> raise (EngineError ''array-like expected''))"

definition demo_env :: env where
  "demo_env = \<lparr>apply_c = demo_apply, convert_inputs_c = ret, astype_c = demo_astype,
                Const_c = demo_Const, as_raw_tensor_c = demo_raw\<rparr>"

definition demo_state :: pystate where
  "demo_state =
     \<lparr>wrappers = [0 \<mapsto> \<lparr>w_class = TensorWrapper, w_wrapped = Prim 1\<rparr>,
                  2 \<mapsto> \<lparr>w_class = TensorWrapper, w_wrapped = Prim 3\<rparr>,
                  4 \<mapsto> \<lparr>w_class = TensorWrapper, w_wrapped = Prim 5\<rparr>,
                  6 \<mapsto> \<lparr>w_class = TensorWrapper, w_wrapped = Prim 7\<rparr>],
      prims = [1 \<mapsto> \<lparr>t_dtype = np_int32, t_shape = [2, 3], t_device = ''cpu0'',
                     t_data = map PyInt [1, 2, 3, 4, 5, 6]\<rparr>,
               3 \<mapsto> \<lparr>t_dtype = np_bool, t_shape = [2], t_device = ''cpu0'',
                     t_data = [PyBool True, PyBool False]\<rparr>,
               5 \<mapsto> \<lparr>t_dtype = np_int32, t_shape = [1], t_device = ''cpu0'',
                     t_data = [PyInt 5]\<rparr>,
               7 \<mapsto> \<lparr>t_dtype = np_float32, t_shape = [], t_device = ''cpu0'',
                     t_data = [PyFloat (Finite 3 (- 1))]\<rparr>],
      next_id = 8,
      calls = []\<rparr>"

text \<open>What flatten on this engine returns: a new wrapper of a new tensor of rank 1.\<close>

definition fresh_flat :: "pystate \<Rightarrow> pyval \<Rightarrow> tensor \<Rightarrow> bool" where
  "fresh_flat s f t =
     (\<exists>n. next_id s = Suc (Suc n) \<and> f = Wrapper (Suc n) \<and>
          wrappers s (Suc n) = Some \<lparr>w_class = TensorWrapper, w_wrapped = Prim n\<rparr> \<and>
          prims s n = Some t \<and> t_shape t = [length (t_data t)])"

section \<open>Properties\<close>

subsection \<open>Auxiliary facts\<close>

lemma forward_Prim:
  "forward n s (Prim p) = (case prims s p of Some t \<Rightarrow> Found t | None \<Rightarrow> NoAttribute)"
  by (cases n) simp_all

lemma forward_Wrapper:
  "0 < n \<Longrightarrow> forward n s (Wrapper a) =
     (case wrappers s a of Some w \<Rightarrow> forward (n - 1) s (w_wrapped w) | None \<Rightarrow> NoAttribute)"
  by (cases n) (simp_all split: option.splits)

lemma forward_PyScalar: "forward n s (PyScalar c) = NoAttribute"
  by (cases n) simp_all

lemma forward_PySeq: "forward n s (PySeq cs) = NoAttribute"
  by (cases n) simp_all

lemma forward_PyNone: "forward n s PyNone = NoAttribute"
  by (cases n) simp_all

lemma forward_NotImplemented: "forward n s NotImplemented = NoAttribute"
  by (cases n) simp_all

lemmas forward_simps = forward_Prim forward_Wrapper forward_PyScalar forward_PySeq
  forward_PyNone forward_NotImplemented

lemma prim_of_unfold:
  "prim_of s v =
     (case v of
        Prim p \<Rightarrow> prims s p
      | Wrapper a \<Rightarrow>
          (case wrappers s a of
             None \<Rightarrow> None
           | Some w \<Rightarrow>
               (case w_wrapped w of
                  Prim p \<Rightarrow> prims s p
                | Wrapper b \<Rightarrow>
                    (case forward 999 s (Wrapper b) of Found t \<Rightarrow> Some t | _ \<Rightarrow> None)
                | _ \<Rightarrow> None))
      | _ \<Rightarrow> None)"
  by (simp add: prim_of_def recursion_limit_def forward_simps
      split: pyval.splits option.splits)

lemma attr_prim_of:
  "attr sel name v s =
     (case prim_of s v of
        Some t \<Rightarrow> (Inr (sel t), s)
      | None \<Rightarrow>
          (Inl (if forward recursion_limit s v = TooDeep then RecursionError
                else AttributeError name), s))"
  by (simp add: attr_def prim_of_def split: lookup.splits)



lemma scan_neg:
  "k < length ss \<Longrightarrow> ss ! k < - 1 \<Longrightarrow> \<forall>m<k. - 1 \<le> ss ! m \<Longrightarrow>
   count_list (take k ss) (- 1) + (case u of None \<Rightarrow> 0 | Some _ \<Rightarrow> 1) \<le> 1 \<Longrightarrow>
   reshape_scan i u ss = Inl (ValueError (msg_neg (i + k) (ss ! k)))"
proof (induction ss arbitrary: i u k)
  case Nil
  then show ?case by simp
next
  case (Cons s ss)
  show ?case
  proof (cases k)
    case 0
    with Cons.prems show ?thesis by simp
  next
    case (Suc k')
    have lo: "- 1 \<le> s" using Cons.prems(3) Suc by force
    have rest: "\<forall>m<k'. - 1 \<le> ss ! m" using Cons.prems(3) Suc by force
    have k': "k' < length ss" "ss ! k' < - 1" using Cons.prems Suc by auto
    show ?thesis
    proof (cases "s = - 1")
      case True
      with Cons.prems(4) Suc have u: "u = None" and c: "count_list (take k' ss) (- 1) = 0"
        by (auto split: option.splits)
      have "reshape_scan (Suc i) (Some i) ss = Inl (ValueError (msg_neg (Suc i + k') (ss ! k')))"
        by (rule Cons.IH [OF k' rest]) (simp add: c)
      with True u Suc show ?thesis by simp
    next
      case False
      with lo have nn: "\<not> s < 0" by simp
      from False Cons.prems(4) Suc
      have c: "count_list (take k' ss) (- 1) + (case u of None \<Rightarrow> 0 | Some _ \<Rightarrow> 1) \<le> 1"
        by simp
      have "reshape_scan (Suc i) u ss = Inl (ValueError (msg_neg (Suc i + k') (ss ! k')))"
        by (rule Cons.IH [OF k' rest c])
      with nn Suc show ?thesis by simp
    qed
  qed
qed

lemma scan_second:
  "k < length ss \<Longrightarrow> ss ! k = - 1 \<Longrightarrow> \<forall>m<k. 0 \<le> ss ! m \<Longrightarrow>
   reshape_scan i (Some j) ss = Inl (ValueError (msg_multi j (i + k)))"
proof (induction ss arbitrary: i k)
  case Nil
  then show ?case by simp
next
  case (Cons s ss)
  show ?case
  proof (cases k)
    case 0
    with Cons.prems show ?thesis by simp
  next
    case (Suc k')
    have nn: "\<not> s < 0" using Cons.prems(3) Suc by force
    have rest: "\<forall>m<k'. 0 \<le> ss ! m" using Cons.prems(3) Suc by force
    have k': "k' < length ss" "ss ! k' = - 1" using Cons.prems Suc by auto
    from Cons.IH [OF k' rest, of "Suc i"] nn Suc show ?thesis by simp
  qed
qed

lemma scan_multi:
  "j < k \<Longrightarrow> k < length ss \<Longrightarrow> ss ! j = - 1 \<Longrightarrow> ss ! k = - 1 \<Longrightarrow>
   \<forall>m<k. m \<noteq> j \<longrightarrow> 0 \<le> ss ! m \<Longrightarrow>
   reshape_scan i None ss = Inl (ValueError (msg_multi (i + j) (i + k)))"
proof (induction ss arbitrary: i j k)
  case Nil
  then show ?case by simp
next
  case (Cons s ss)
  obtain k' where k: "k = Suc k'" using Cons.prems(1) by (cases k) auto
  show ?case
  proof (cases j)
    case 0
    have s: "s = - 1" using Cons.prems(3) 0 by simp
    have rest: "\<forall>m<k'. 0 \<le> ss ! m"
    proof (intro allI impI)
      fix m assume "m < k'"
      then have "Suc m < k" "Suc m \<noteq> j" using k 0 by auto
      with Cons.prems(5) have "0 \<le> (s # ss) ! Suc m" by blast
      then show "0 \<le> ss ! m" by simp
    qed
    have k': "k' < length ss" "ss ! k' = - 1" using Cons.prems k by auto
    from scan_second [OF k' rest, of "Suc i" i] s 0 k show ?thesis by simp
  next
    case (Suc j')
    have "0 < k" "0 \<noteq> j" using Suc k by auto
    with Cons.prems(5) have "0 \<le> (s # ss) ! 0" by blast
    then have nn: "\<not> s < 0" by simp
    have rest: "\<forall>m<k'. m \<noteq> j' \<longrightarrow> 0 \<le> ss ! m"
    proof (intro allI impI)
      fix m assume "m < k'" "m \<noteq> j'"
      then have "Suc m < k" "Suc m \<noteq> j" using k Suc by auto
      with Cons.prems(5) have "0 \<le> (s # ss) ! Suc m" by blast
      then show "0 \<le> ss ! m" by simp
    qed
    have p: "j' < k'" "k' < length ss" "ss ! j' = - 1" "ss ! k' = - 1"
      using Cons.prems k Suc by auto
    from Cons.IH [OF p rest, of "Suc i"] nn k Suc show ?thesis by simp
  qed
qed



lemma scan_keep:
  "\<forall>v\<in>set ss. 0 \<le> v \<Longrightarrow> reshape_scan i u ss = Inr u"
  by (induction ss arbitrary: i) auto

lemma scan_ok:
  "\<forall>v\<in>set ss. - 1 \<le> v \<Longrightarrow> count_list ss (- 1) \<le> 1 \<Longrightarrow>
   \<exists>u. reshape_scan i None ss = Inr u \<and> (u = None \<longleftrightarrow> - 1 \<notin> set ss) \<and>
       (\<forall>a. u = Some a \<longrightarrow> i \<le> a \<and> a - i < length ss \<and> ss ! (a - i) = - 1)"
proof (induction ss arbitrary: i)
  case Nil
  then show ?case by simp
next
  case (Cons s ss)
  show ?case
  proof (cases "s = - 1")
    case True
    with Cons.prems(2) have c: "count_list ss (- 1) = 0" by simp
    then have "- 1 \<notin> set ss" by (simp add: count_list_0_iff)
    have "\<forall>v\<in>set ss. 0 \<le> v"
    proof
      fix v assume v: "v \<in> set ss"
      with Cons.prems(1) have "- 1 \<le> v" by simp
      moreover from v \<open>- 1 \<notin> set ss\<close> have "v \<noteq> - 1" by auto
      ultimately show "0 \<le> v" by simp
    qed
    then have "reshape_scan (Suc i) (Some i) ss = Inr (Some i)" by (rule scan_keep)
    with True show ?thesis by simp
  next
    case False
    with Cons.prems have nn: "\<not> s < 0" and p: "\<forall>v\<in>set ss. - 1 \<le> v" "count_list ss (- 1) \<le> 1"
      by auto
    from Cons.IH [OF p, of "Suc i"] obtain u where
      u: "reshape_scan (Suc i) None ss = Inr u" "(u = None) = (- 1 \<notin> set ss)"
         "\<forall>a. u = Some a \<longrightarrow> Suc i \<le> a \<and> a - Suc i < length ss \<and> ss ! (a - Suc i) = - 1"
      by blast
    have "\<forall>a. u = Some a \<longrightarrow> i \<le> a \<and> a - i < length (s # ss) \<and> (s # ss) ! (a - i) = - 1"
    proof (intro allI impI)
      fix a assume "u = Some a"
      with u(3) have a: "Suc i \<le> a" "a - Suc i < length ss" "ss ! (a - Suc i) = - 1" by auto
      then have "a - i = Suc (a - Suc i)" by simp
      with a show "i \<le> a \<and> a - i < length (s # ss) \<and> (s # ss) ! (a - i) = - 1" by simp
    qed
    with u(1,2) nn False show ?thesis by auto
  qed
qed

lemma scan_error_kind:
  "reshape_scan i u ss = Inl e \<Longrightarrow> \<exists>m. e = ValueError m"
  by (induction i u ss rule: reshape_scan.induct) (auto split: if_splits option.splits)

lemma scan_Inr_valid:
  "reshape_scan i u ss = Inr u' \<Longrightarrow>
   (\<forall>v\<in>set ss. - 1 \<le> v) \<and> count_list ss (- 1) + (case u of None \<Rightarrow> 0 | Some _ \<Rightarrow> 1) \<le> 1"
  by (induction i u ss rule: reshape_scan.induct) (auto split: if_splits option.splits)


lemma ext_calls: "ext c s = (r, s') \<Longrightarrow> calls s' = calls s"
  by (auto simp: ext_def split: prod.splits)

lemma apply_op_calls: "calls (snd (apply_op E op args s)) = calls s @ [(op, args)]"
  by (simp add: apply_op_def split: prod.splits)

lemma bnd_unpack1_state: "snd (bnd m unpack1 s) = snd (m s)"
  by (auto simp: bnd_def unpack1_def ret_def raise_def split: prod.splits sum.splits list.splits)

lemma reshape_invalid:
  "reshape_scan 0 None ss = Inl e \<Longrightarrow> reshape E x ss s = (Inl e, s)"
  by (simp add: reshape_def raise_def)

lemma reshape_valid:
  assumes "reshape_scan 0 None ss = Inr u" "prim_of s x = Some t"
    "ext (Const_c E ss np_int32 (t_device t) x) s = (Inr [c], s1)"
  shows "reshape E x ss s = bnd (apply_op E (Reshape u) [x, c]) unpack1 s1"
  using assms
  by (simp add: reshape_def bnd_def get_device_def attr_prim_of unpack1_def ret_def)

lemma show_nat_digit: "n < 10 \<Longrightarrow> show_nat n = [digit n]"
  by (simp add: show_nat.simps)

lemma demo_prim0:
  "prim_of demo_state (Wrapper 0) =
     Some \<lparr>t_dtype = np_int32, t_shape = [2, 3], t_device = ''cpu0'',
           t_data = map PyInt [1, 2, 3, 4, 5, 6]\<rparr>"
  by (simp add: prim_of_unfold demo_state_def)

lemma demo_Const_result:
  "fst (ext (Const_c demo_env ss np_int32 dev x) demo_state) = Inr [Wrapper 9]"
  by (simp add: ext_def demo_env_def demo_Const_def demo_new_def bnd_def new_prim_def
      new_wrapper_def ret_def demo_state_def split: prod.splits)

lemmas monad_defs = bnd_def ret_def raise_def lift_def ext_def unpack1_def apply_op_def

lemmas demo_defs = demo_env_def demo_state_def demo_apply_def demo_new_def demo_astype_def
  demo_Const_def demo_raw_def new_prim_def new_wrapper_def prim_of_unfold demo_int_def py_int_def
  demo_shape_def float_trunc_def

lemma demo_wrapper0:
  "wrappers demo_state 0 = Some \<lparr>w_class = TensorWrapper, w_wrapped = Prim 1\<rparr>"
  by (simp add: demo_state_def)

subsection \<open>Validation in reshape\<close>

text \<open>
  Claim C1, as amended. \<open>_reshape\<close> scans the shape from the left and raises at the
  first violation it meets, before any collaborator or primitive is called (the state is
  returned as it was):
  \<^item> if the first violation is an entry \<open>ss ! k\<close> below \<open>-1\<close> (the entries before it are
    at least \<open>-1\<close>, at most one of them is \<open>-1\<close>), the error is \<open>ValueError\<close> with the
    message that carries \<open>k\<close> and \<open>ss ! k\<close>;
  \<^item> if the first violation is a second \<open>-1\<close> at \<open>k\<close> (the first at \<open>j\<close>, every other
    entry before \<open>k\<close> non-negative), the error is \<open>ValueError\<close> with the message that
    carries \<open>j\<close> and \<open>k\<close>;
  \<^item> every shape with an entry below \<open>-1\<close> or with two or more \<open>-1\<close> fails with a
    \<open>ValueError\<close>;
  \<^item> for a shape with all entries at least \<open>-1\<close> and at most one \<open>-1\<close>, on a tensor
    \<open>x\<close> for which \<open>Const\<close> returns one tensor \<open>c\<close>, the module issues exactly one
    primitive invocation, \<open>Reshape\<close> on \<open>[x, c]\<close>, whose \<open>unspec_axis\<close> is the index
    of the \<open>-1\<close> when there is one and absent otherwise, and returns its single output.
\<close>

theorem reshape_validation:
  "(k < length ss \<and> ss ! k < - 1 \<and> (\<forall>m<k. - 1 \<le> ss ! m) \<and> count_list (take k ss) (- 1) \<le> 1
      \<longrightarrow> reshape E x ss s = (Inl (ValueError (msg_neg k (ss ! k))), s)) \<and>
   (j < k \<and> k < length ss \<and> ss ! j = - 1 \<and> ss ! k = - 1 \<and> (\<forall>m<k. m \<noteq> j \<longrightarrow> 0 \<le> ss ! m)
      \<longrightarrow> reshape E x ss s = (Inl (ValueError (msg_multi j k)), s)) \<and>
   ((\<exists>v\<in>set ss. v < - 1) \<or> 2 \<le> count_list ss (- 1)
      \<longrightarrow> (\<exists>m. reshape E x ss s = (Inl (ValueError m), s))) \<and>
   ((\<forall>v\<in>set ss. - 1 \<le> v) \<and> count_list ss (- 1) \<le> 1 \<and> prim_of s x = Some t \<and>
    ext (Const_c E ss np_int32 (t_device t) x) s = (Inr [c], s1)
      \<longrightarrow> (\<exists>u. (u = None \<longleftrightarrow> - 1 \<notin> set ss) \<and>
               (\<forall>a. u = Some a \<longrightarrow> a < length ss \<and> ss ! a = - 1) \<and>
               reshape E x ss s = bnd (apply_op E (Reshape u) [x, c]) unpack1 s1 \<and>
               calls (snd (reshape E x ss s)) = calls s @ [(Reshape u, [x, c])]))"
proof (intro conjI impI)
  assume "k < length ss \<and> ss ! k < - 1 \<and> (\<forall>m<k. - 1 \<le> ss ! m) \<and> count_list (take k ss) (- 1) \<le> 1"
  then have "reshape_scan 0 None ss = Inl (ValueError (msg_neg (0 + k) (ss ! k)))"
    by (intro scan_neg) auto
  then show "reshape E x ss s = (Inl (ValueError (msg_neg k (ss ! k))), s)"
    by (simp add: reshape_invalid)
next
  assume "j < k \<and> k < length ss \<and> ss ! j = - 1 \<and> ss ! k = - 1 \<and> (\<forall>m<k. m \<noteq> j \<longrightarrow> 0 \<le> ss ! m)"
  then have "reshape_scan 0 None ss = Inl (ValueError (msg_multi (0 + j) (0 + k)))"
    by (intro scan_multi) auto
  then show "reshape E x ss s = (Inl (ValueError (msg_multi j k)), s)"
    by (simp add: reshape_invalid)
next
  assume bad: "(\<exists>v\<in>set ss. v < - 1) \<or> 2 \<le> count_list ss (- 1)"
  show "\<exists>m. reshape E x ss s = (Inl (ValueError m), s)"
  proof (cases "reshape_scan 0 None ss")
    case (Inl e)
    with scan_error_kind obtain m where "e = ValueError m" by blast
    with Inl show ?thesis by (auto simp: reshape_invalid)
  next
    case (Inr u)
    from scan_Inr_valid [OF Inr] bad show ?thesis by force
  qed
next
  assume ok: "(\<forall>v\<in>set ss. - 1 \<le> v) \<and> count_list ss (- 1) \<le> 1 \<and> prim_of s x = Some t \<and>
    ext (Const_c E ss np_int32 (t_device t) x) s = (Inr [c], s1)"
  then obtain u where u: "reshape_scan 0 None ss = Inr u" "(u = None) = (- 1 \<notin> set ss)"
    "\<forall>a. u = Some a \<longrightarrow> 0 \<le> a \<and> a - 0 < length ss \<and> ss ! (a - 0) = - 1"
    using scan_ok [of ss 0] by blast
  from ok have c: "calls s1 = calls s" by (auto dest: ext_calls)
  have r: "reshape E x ss s = bnd (apply_op E (Reshape u) [x, c]) unpack1 s1"
    using reshape_valid [OF u(1)] ok by blast
  have "calls (snd (reshape E x ss s)) = calls s @ [(Reshape u, [x, c])]"
    by (simp add: r bnd_unpack1_state apply_op_calls c)
  with u r show "\<exists>u. (u = None \<longleftrightarrow> - 1 \<notin> set ss) \<and>
               (\<forall>a. u = Some a \<longrightarrow> a < length ss \<and> ss ! a = - 1) \<and>
               reshape E x ss s = bnd (apply_op E (Reshape u) [x, c]) unpack1 s1 \<and>
               calls (snd (reshape E x ss s)) = calls s @ [(Reshape u, [x, c])]"
    by auto
qed

theorem reshape_validation_witness:
  "reshape demo_env (Wrapper 0) [2, - 3] demo_state =
     (Inl (ValueError ''expect shape[1] >= -1, got -3''), demo_state) \<and>
   reshape demo_env (Wrapper 0) [- 1, 4, - 1] demo_state =
     (Inl (ValueError ''multiple -1 in shape: 0 & 2''), demo_state) \<and>
   (\<exists>m. reshape demo_env (Wrapper 0) [- 1, 4, - 1] demo_state = (Inl (ValueError m), demo_state)) \<and>
   calls (snd (reshape demo_env (Wrapper 0) [3, - 1] demo_state)) =
     [(Reshape (Some 1), [Wrapper 0, Wrapper 9])]"
proof (intro conjI)
  have "reshape demo_env (Wrapper 0) [2, - 3] demo_state =
          (Inl (ValueError (msg_neg 1 ([2, - 3] ! 1))), demo_state)"
    using reshape_validation [where k = 1 and ss = "[2, - 3]" and E = demo_env
        and x = "Wrapper 0" and s = demo_state, THEN conjunct1]
    by simp
  then show "reshape demo_env (Wrapper 0) [2, - 3] demo_state =
     (Inl (ValueError ''expect shape[1] >= -1, got -3''), demo_state)"
    by (simp add: msg_neg_def show_int_def show_nat_digit digit_def)
next
  have "reshape demo_env (Wrapper 0) [- 1, 4, - 1] demo_state =
          (Inl (ValueError (msg_multi 0 2)), demo_state)"
    using reshape_validation [where j = 0 and k = 2 and ss = "[- 1, 4, - 1]" and E = demo_env
        and x = "Wrapper 0" and s = demo_state, THEN conjunct2, THEN conjunct1]
    by (simp add: less_Suc_eq numeral_2_eq_2)
  then show "reshape demo_env (Wrapper 0) [- 1, 4, - 1] demo_state =
     (Inl (ValueError ''multiple -1 in shape: 0 & 2''), demo_state)"
    by (simp add: msg_multi_def show_nat_digit digit_def)
next
  show "\<exists>m. reshape demo_env (Wrapper 0) [- 1, 4, - 1] demo_state = (Inl (ValueError m), demo_state)"
    using reshape_validation [where ss = "[- 1, 4, - 1]" and E = demo_env
        and x = "Wrapper 0" and s = demo_state, THEN conjunct2, THEN conjunct2, THEN conjunct1]
    by simp
next
  define s1 where "s1 = snd (ext (Const_c demo_env [3, - 1] np_int32 ''cpu0'' (Wrapper 0)) demo_state)"
  have c: "ext (Const_c demo_env [3, - 1] np_int32 ''cpu0'' (Wrapper 0)) demo_state =
             (Inr [Wrapper 9], s1)"
    unfolding s1_def using demo_Const_result [of "[3, - 1]" "''cpu0''" "Wrapper 0"]
    by (metis prod.collapse)
  from reshape_validation [where ss = "[3, - 1]" and E = demo_env and x = "Wrapper 0"
      and s = demo_state and c = "Wrapper 9" and ?s1.0 = s1
      and t = "\<lparr>t_dtype = np_int32, t_shape = [2, 3], t_device = ''cpu0'',
           t_data = map PyInt [1, 2, 3, 4, 5, 6]\<rparr>",
      THEN conjunct2, THEN conjunct2, THEN conjunct2] demo_prim0 c
  obtain u where u: "(u = None) = (- 1 \<notin> set [3, - 1 :: int])"
    "\<forall>a. u = Some a \<longrightarrow> a < length [3, - 1 :: int] \<and> [3, - 1 :: int] ! a = - 1"
    "calls (snd (reshape demo_env (Wrapper 0) [3, - 1] demo_state)) =
       calls demo_state @ [(Reshape u, [Wrapper 0, Wrapper 9])]"
    by auto
  from u(1) obtain a where a: "u = Some a" by auto
  with u(2) have "a < 2" "[3, - 1 :: int] ! a = - 1" by auto
  then have "a = 1" by (cases a) auto
  with a u(3) show "calls (snd (reshape demo_env (Wrapper 0) [3, - 1] demo_state)) =
     [(Reshape (Some 1), [Wrapper 0, Wrapper 9])]"
    by (simp add: demo_state_def)
qed

theorem reshape_first_violation_counterexample:
  "[- 1, - 1, - 2] ! 2 = (- 2 :: int) \<and>
   fst (reshape demo_env (Wrapper 0) [- 1, - 1, - 2] demo_state) =
     Inl (ValueError ''multiple -1 in shape: 0 & 1'') \<and>
   [- 2, - 1, - 1] ! 1 = (- 1 :: int) \<and> [- 2, - 1, - 1] ! 2 = (- 1 :: int) \<and>
   fst (reshape demo_env (Wrapper 0) [- 2, - 1, - 1] demo_state) =
     Inl (ValueError ''expect shape[0] >= -1, got -2'')"
  by (simp add: reshape_def raise_def msg_multi_def msg_neg_def show_int_def show_nat_digit
      digit_def)

subsection \<open>Comparisons\<close>

lemma apply_op_calls_eq:
  "apply_op E op args s = (r, s') \<Longrightarrow> calls s' = calls s @ [(op, args)]"
  by (auto simp: apply_op_def split: prod.splits)

lemma elwise_converted:
  "ext (convert_inputs_c E args) s = (Inr args', s1) \<Longrightarrow>
   elwise E args mode s = bnd (apply_op E (Elemwise mode) args') unpack1 s1"
  by (simp add: elwise_def bnd_def)

lemma elwise_convert_fails:
  "ext (convert_inputs_c E args) s = (Inl e, s1) \<Longrightarrow> elwise E args mode s = (Inl e, s1)"
  by (simp add: elwise_def bnd_def)

lemma elwise_ok:
  assumes "ext (convert_inputs_c E args) s = (Inr args', s1)"
    and "apply_op E (Elemwise mode) args' s1 = (Inr [r], s2)"
  shows "elwise E args mode s = (Inr r, s2)"
    and "calls s2 = calls s @ [(Elemwise mode, args')]"
proof -
  from assms show "elwise E args mode s = (Inr r, s2)"
    by (simp add: elwise_converted bnd_def unpack1_def ret_def)
  from assms(1) have "calls s1 = calls s" by (rule ext_calls)
  with apply_op_calls_eq [OF assms(2)] show "calls s2 = calls s @ [(Elemwise mode, args')]"
    by simp
qed

lemma elwise_calls:
  "calls (snd (elwise E args mode s)) = calls s \<or>
   (\<exists>args'. calls (snd (elwise E args mode s)) = calls s @ [(Elemwise mode, args')])"
proof (cases "ext (convert_inputs_c E args) s")
  case (Pair r s1)
  then have c: "calls s1 = calls s" by (rule ext_calls)
  show ?thesis
  proof (cases r)
    case (Inl e)
    with Pair c show ?thesis by (simp add: elwise_def bnd_def)
  next
    case (Inr args')
    with Pair have "elwise E args mode s = bnd (apply_op E (Elemwise mode) args') unpack1 s1"
      by (simp add: elwise_def bnd_def)
    then show ?thesis by (simp add: bnd_unpack1_state apply_op_calls c)
  qed
qed

lemma elwise_calls_ok:
  "elwise E args mode s = (Inr r, s1) \<Longrightarrow>
   \<exists>args'. calls s1 = calls s @ [(Elemwise mode, args')]"
proof -
  assume a: "elwise E args mode s = (Inr r, s1)"
  obtain r0 s0 where p: "ext (convert_inputs_c E args) s = (r0, s0)" by (cases "ext (convert_inputs_c E args) s")
  then have c: "calls s0 = calls s" by (rule ext_calls)
  from a p obtain args' where r0: "r0 = Inr args'"
    by (cases r0) (auto simp: elwise_def bnd_def)
  with p have "elwise E args mode s = bnd (apply_op E (Elemwise mode) args') unpack1 s0"
    by (simp add: elwise_def bnd_def)
  then have "calls (snd (elwise E args mode s)) = calls s @ [(Elemwise mode, args')]"
    by (simp add: bnd_unpack1_state apply_op_calls c)
  with a show ?thesis by auto
qed

lemma ext_calls_snd: "calls (snd (ext c s)) = calls s"
  by (simp add: ext_def split: prod.splits)

lemma astype_calls: "calls (snd (astype E r d s)) = calls s"
  by (auto simp: astype_def raise_def ext_def split: prod.splits)

text \<open>A comparison: the primitive on the converted operands, its output through \<open>astype\<close>.\<close>

lemma compare_ok:
  assumes "ext (convert_inputs_c E args) s = (Inr args', s1)"
    and "apply_op E (Elemwise mode) args' s1 = (Inr [Wrapper q], s2)"
  shows "bnd (elwise E args mode) (\<lambda>r. astype E r np_bool) s =
           ext (astype_c E (Wrapper q) np_bool) s2 \<and>
         calls (snd (bnd (elwise E args mode) (\<lambda>r. astype E r np_bool) s)) =
           calls s @ [(Elemwise mode, args')]"
proof -
  have e: "bnd (elwise E args mode) (\<lambda>r. astype E r np_bool) s =
        ext (astype_c E (Wrapper q) np_bool) s2"
    using elwise_ok(1) [OF assms] by (simp add: bnd_def astype_def is_wrapper_def)
  show ?thesis
    by (simp add: e ext_calls_snd elwise_ok(2) [OF assms])
qed

lemma cmp_calls:
  "calls (snd (bnd (elwise E args mode) (\<lambda>r. astype E r d) s)) = calls s \<or>
   (\<exists>args'. calls (snd (bnd (elwise E args mode) (\<lambda>r. astype E r d) s)) =
      calls s @ [(Elemwise mode, args')])"
proof (cases "elwise E args mode s")
  case (Pair r s1)
  show ?thesis
  proof (cases r)
    case (Inl e)
    with Pair elwise_calls [of E args mode s] show ?thesis by (simp add: bnd_def)
  next
    case (Inr v)
    with Pair elwise_calls_ok [of E args mode s v s1] show ?thesis
      by (auto simp: bnd_def astype_calls)
  qed
qed

lemma ne_calls:
  "\<exists>l. calls (snd (dunder_ne E a b s)) = calls s @ l \<and>
       (map fst l = [] \<or> map fst l = [Elemwise ''EQ''] \<or>
        map fst l = [Elemwise ''EQ'', Elemwise ''NOT''])"
proof (cases "dunder_eq E a b s")
  case (Pair r s1)
  have c1: "calls s1 = calls s \<or> (\<exists>args'. calls s1 = calls s @ [(Elemwise ''EQ'', args')])"
    using cmp_calls [of E "[a, b]" "''EQ''" np_bool s] Pair by (simp add: dunder_eq_def)
  show ?thesis
  proof (cases r)
    case (Inl e)
    with Pair have "dunder_ne E a b s = (Inl e, s1)"
      by (simp add: dunder_ne_def dunder_eq_def bnd_def)
    with c1 show ?thesis by auto
  next
    case (Inr v)
    with Pair have n: "dunder_ne E a b s = elwise E [v] ''NOT'' s1"
      by (simp add: dunder_ne_def dunder_eq_def bnd_def)
    from Pair Inr obtain r0 s0 where e: "elwise E [a, b] ''EQ'' s = (Inr r0, s0)"
      by (auto simp: dunder_eq_def bnd_def split: prod.splits sum.splits)
    with Pair Inr have "astype E r0 np_bool s0 = (Inr v, s1)"
      by (simp add: dunder_eq_def bnd_def)
    then have "calls s1 = calls s0" using astype_calls [of E r0 np_bool s0] by simp
    with elwise_calls_ok [OF e] obtain args' where
      c: "calls s1 = calls s @ [(Elemwise ''EQ'', args')]" by auto
    from elwise_calls [of E "[v]" "''NOT''" s1] n c show ?thesis by auto
  qed
qed

lemma demo_convert: "ext (convert_inputs_c demo_env vs) s = (Inr vs, s)"
  by (simp add: ext_def demo_env_def ret_def)

text \<open>
  Claim C2. \<open>a != b\<close> invokes the \<open>EQ\<close> primitive on the converted operands
  \<open>(a, b)\<close>, converts its output with \<open>astype("bool")\<close> (this much is \<open>a == b\<close>), and
  invokes the \<open>NOT\<close> primitive on that boolean tensor; the value of \<open>a != b\<close> is the
  single output of \<open>NOT\<close>. These two are the only primitives invoked, in this order: no
  not-equal primitive is among them. When \<open>a == b\<close> fails, \<open>a != b\<close> fails in the same
  way, and whatever happens no primitive other than these two is invoked.
\<close>

theorem ne_is_not_eq:
  "(ext (convert_inputs_c E [a, b]) s = (Inr args1, s1) \<and>
    apply_op E (Elemwise ''EQ'') args1 s1 = (Inr [Wrapper q], s2) \<and>
    ext (astype_c E (Wrapper q) np_bool) s2 = (Inr bv, s3) \<and>
    ext (convert_inputs_c E [bv]) s3 = (Inr args2, s4) \<longrightarrow>
      dunder_eq E a b s = (Inr bv, s3) \<and>
      dunder_ne E a b s = bnd (apply_op E (Elemwise ''NOT'') args2) unpack1 s4 \<and>
      calls (snd (dunder_ne E a b s)) =
        calls s @ [(Elemwise ''EQ'', args1), (Elemwise ''NOT'', args2)] \<and>
      (\<forall>out s5. apply_op E (Elemwise ''NOT'') args2 s4 = (Inr [out], s5) \<longrightarrow>
         dunder_ne E a b s = (Inr out, s5))) \<and>
   (\<forall>e s'. dunder_eq E a b s = (Inl e, s') \<longrightarrow> dunder_ne E a b s = (Inl e, s')) \<and>
   dunder_ne E a b = bnd (dunder_eq E a b) (\<lambda>e. elwise E [e] ''NOT'') \<and>
   (\<exists>l. calls (snd (dunder_ne E a b s)) = calls s @ l \<and>
       (map fst l = [] \<or> map fst l = [Elemwise ''EQ''] \<or>
        map fst l = [Elemwise ''EQ'', Elemwise ''NOT'']))"
proof (intro conjI impI allI)
  assume h: "ext (convert_inputs_c E [a, b]) s = (Inr args1, s1) \<and>
    apply_op E (Elemwise ''EQ'') args1 s1 = (Inr [Wrapper q], s2) \<and>
    ext (astype_c E (Wrapper q) np_bool) s2 = (Inr bv, s3) \<and>
    ext (convert_inputs_c E [bv]) s3 = (Inr args2, s4)"
  then have h1: "ext (convert_inputs_c E [a, b]) s = (Inr args1, s1)"
    and h2: "apply_op E (Elemwise ''EQ'') args1 s1 = (Inr [Wrapper q], s2)"
    and h3: "ext (astype_c E (Wrapper q) np_bool) s2 = (Inr bv, s3)"
    and h4: "ext (convert_inputs_c E [bv]) s3 = (Inr args2, s4)"
    by blast+
  from compare_ok [OF h1 h2] h3
  show eq: "dunder_eq E a b s = (Inr bv, s3)"
    by (simp add: dunder_eq_def)
  then show ne: "dunder_ne E a b s = bnd (apply_op E (Elemwise ''NOT'') args2) unpack1 s4"
    by (simp add: dunder_ne_def dunder_eq_def bnd_def elwise_converted [OF h4])
  have c3: "calls s3 = calls s @ [(Elemwise ''EQ'', args1)]"
    using ext_calls [OF h3] elwise_ok(2) [OF h1 h2] by simp
  from h4 have c4: "calls s4 = calls s3" by (rule ext_calls)
  show "calls (snd (dunder_ne E a b s)) =
        calls s @ [(Elemwise ''EQ'', args1), (Elemwise ''NOT'', args2)]"
    by (simp add: ne bnd_unpack1_state apply_op_calls c3 c4)
  fix out s5
  assume "apply_op E (Elemwise ''NOT'') args2 s4 = (Inr [out], s5)"
  then show "dunder_ne E a b s = (Inr out, s5)"
    by (simp add: ne bnd_def unpack1_def ret_def)
next
  fix e s'
  assume "dunder_eq E a b s = (Inl e, s')"
  then show "dunder_ne E a b s = (Inl e, s')"
    by (simp add: dunder_ne_def dunder_eq_def bnd_def)
next
  show "dunder_ne E a b = bnd (dunder_eq E a b) (\<lambda>e. elwise E [e] ''NOT'')"
    by (simp add: dunder_ne_def dunder_eq_def)
next
  show "\<exists>l. calls (snd (dunder_ne E a b s)) = calls s @ l \<and>
       (map fst l = [] \<or> map fst l = [Elemwise ''EQ''] \<or>
        map fst l = [Elemwise ''EQ'', Elemwise ''NOT''])"
    by (rule ne_calls)
qed

lemma demo_eq_4_6:
  "fst (apply_op demo_env (Elemwise ''EQ'') [Wrapper 4, Wrapper 6] demo_state) =
     Inr [Wrapper 9]"
  by (simp add: monad_defs demo_defs)

lemma demo_astype_after_eq:
  "fst (ext (astype_c demo_env (Wrapper 9) np_bool)
     (snd (apply_op demo_env (Elemwise ''EQ'') [Wrapper 4, Wrapper 6] demo_state))) =
     Inr (Wrapper 11)"
  by (simp add: monad_defs demo_defs)

lemma demo_not_after_eq:
  "fst (apply_op demo_env (Elemwise ''NOT'') [Wrapper 11]
     (snd (ext (astype_c demo_env (Wrapper 9) np_bool)
       (snd (apply_op demo_env (Elemwise ''EQ'') [Wrapper 4, Wrapper 6] demo_state))))) =
     Inr [Wrapper 13] \<and>
   prim_of (snd (apply_op demo_env (Elemwise ''NOT'') [Wrapper 11]
     (snd (ext (astype_c demo_env (Wrapper 9) np_bool)
       (snd (apply_op demo_env (Elemwise ''EQ'') [Wrapper 4, Wrapper 6] demo_state))))))
     (Wrapper 13) =
     Some \<lparr>t_dtype = np_bool, t_shape = [1], t_device = ''cpu0'', t_data = [PyBool True]\<rparr>"
  by (simp add: monad_defs demo_defs)

theorem ne_is_not_eq_witness:
  "fst (dunder_ne demo_env (Wrapper 4) (Wrapper 6) demo_state) = Inr (Wrapper 13) \<and>
   prim_of (snd (dunder_ne demo_env (Wrapper 4) (Wrapper 6) demo_state)) (Wrapper 13) =
     Some \<lparr>t_dtype = np_bool, t_shape = [1], t_device = ''cpu0'', t_data = [PyBool True]\<rparr> \<and>
   calls (snd (dunder_ne demo_env (Wrapper 4) (Wrapper 6) demo_state)) =
     [(Elemwise ''EQ'', [Wrapper 4, Wrapper 6]), (Elemwise ''NOT'', [Wrapper 11])]"
proof -
  define s2 where "s2 = snd (apply_op demo_env (Elemwise ''EQ'') [Wrapper 4, Wrapper 6] demo_state)"
  define s3 where "s3 = snd (ext (astype_c demo_env (Wrapper 9) np_bool) s2)"
  define s5 where "s5 = snd (apply_op demo_env (Elemwise ''NOT'') [Wrapper 11] s3)"
  have h2: "apply_op demo_env (Elemwise ''EQ'') [Wrapper 4, Wrapper 6] demo_state =
      (Inr [Wrapper 9], s2)"
    unfolding s2_def using demo_eq_4_6 by (metis prod.collapse)
  have h3: "ext (astype_c demo_env (Wrapper 9) np_bool) s2 = (Inr (Wrapper 11), s3)"
    unfolding s3_def s2_def using demo_astype_after_eq by (metis prod.collapse)
  have h5: "apply_op demo_env (Elemwise ''NOT'') [Wrapper 11] s3 = (Inr [Wrapper 13], s5)"
    unfolding s5_def s3_def s2_def using demo_not_after_eq by (metis prod.collapse)
  have v: "prim_of s5 (Wrapper 13) =
     Some \<lparr>t_dtype = np_bool, t_shape = [1], t_device = ''cpu0'', t_data = [PyBool True]\<rparr>"
    unfolding s5_def s3_def s2_def using demo_not_after_eq by simp
  note t = ne_is_not_eq [where E = demo_env and a = "Wrapper 4" and b = "Wrapper 6"
      and s = demo_state and ?args1.0 = "[Wrapper 4, Wrapper 6]" and ?s1.0 = demo_state
      and q = 9 and ?s2.0 = s2 and bv = "Wrapper 11" and ?s3.0 = s3
      and ?args2.0 = "[Wrapper 11]" and ?s4.0 = s3, THEN conjunct1, THEN mp]
  have r: "dunder_ne demo_env (Wrapper 4) (Wrapper 6) demo_state = (Inr (Wrapper 13), s5)"
    and c: "calls (snd (dunder_ne demo_env (Wrapper 4) (Wrapper 6) demo_state)) =
        calls demo_state @ [(Elemwise ''EQ'', [Wrapper 4, Wrapper 6]),
          (Elemwise ''NOT'', [Wrapper 11])]"
    using t h2 h3 h5 demo_convert by blast+
  from r v c show ?thesis by (simp add: demo_state_def)
qed

text \<open>
  Claim C10. \<open>a > b\<close> invokes the \<open>LT\<close> primitive on the converted operands
  \<open>(b, a)\<close>, in this swapped order, and \<open>a >= b\<close> invokes \<open>LEQ\<close> on \<open>(b, a)\<close>;
  this is the only primitive invoked, so there is no greater-than primitive, and
  \<open>a > b\<close> is the same computation as \<open>b < a\<close>, \<open>a >= b\<close> the same as \<open>b <= a\<close>.
  The value of each of \<open><\<close>, \<open><=\<close>, \<open>>\<close>, \<open>>=\<close> and \<open>==\<close> is what
  \<open>astype("bool")\<close> returns for the output of the comparison primitive (\<open>LT\<close>,
  \<open>LEQ\<close>, \<open>EQ\<close>); in \<open>!=\<close> the output of \<open>EQ\<close> goes through \<open>astype("bool")\<close>
  in the same way, before \<open>NOT\<close> is applied to it.
\<close>

theorem gt_ge_swap:
  "(ext (convert_inputs_c E [b, a]) s = (Inr args, s1) \<and>
    apply_op E (Elemwise ''LT'') args s1 = (Inr [Wrapper q], s2) \<longrightarrow>
      dunder_gt E a b s = ext (astype_c E (Wrapper q) np_bool) s2 \<and>
      calls (snd (dunder_gt E a b s)) = calls s @ [(Elemwise ''LT'', args)]) \<and>
   (ext (convert_inputs_c E [b, a]) s = (Inr args, s1) \<and>
    apply_op E (Elemwise ''LEQ'') args s1 = (Inr [Wrapper q], s2) \<longrightarrow>
      dunder_ge E a b s = ext (astype_c E (Wrapper q) np_bool) s2 \<and>
      calls (snd (dunder_ge E a b s)) = calls s @ [(Elemwise ''LEQ'', args)]) \<and>
   (ext (convert_inputs_c E [a, b]) s = (Inr args, s1) \<and>
    apply_op E (Elemwise ''LT'') args s1 = (Inr [Wrapper q], s2) \<longrightarrow>
      dunder_lt E a b s = ext (astype_c E (Wrapper q) np_bool) s2 \<and>
      calls (snd (dunder_lt E a b s)) = calls s @ [(Elemwise ''LT'', args)]) \<and>
   (ext (convert_inputs_c E [a, b]) s = (Inr args, s1) \<and>
    apply_op E (Elemwise ''LEQ'') args s1 = (Inr [Wrapper q], s2) \<longrightarrow>
      dunder_le E a b s = ext (astype_c E (Wrapper q) np_bool) s2 \<and>
      calls (snd (dunder_le E a b s)) = calls s @ [(Elemwise ''LEQ'', args)]) \<and>
   (ext (convert_inputs_c E [a, b]) s = (Inr args, s1) \<and>
    apply_op E (Elemwise ''EQ'') args s1 = (Inr [Wrapper q], s2) \<longrightarrow>
      dunder_eq E a b s = ext (astype_c E (Wrapper q) np_bool) s2 \<and>
      calls (snd (dunder_eq E a b s)) = calls s @ [(Elemwise ''EQ'', args)] \<and>
      dunder_ne E a b s =
        bnd (ext (astype_c E (Wrapper q) np_bool)) (\<lambda>bv.
        bnd (ext (convert_inputs_c E [bv])) (\<lambda>args2.
        bnd (apply_op E (Elemwise ''NOT'') args2) unpack1)) s2) \<and>
   (\<forall>e s'. ext (convert_inputs_c E [b, a]) s = (Inl e, s') \<longrightarrow>
      dunder_gt E a b s = (Inl e, s') \<and> dunder_ge E a b s = (Inl e, s')) \<and>
   dunder_gt E a b = dunder_lt E b a \<and> dunder_ge E a b = dunder_le E b a \<and>
   (calls (snd (dunder_gt E a b s)) = calls s \<or>
    (\<exists>args'. calls (snd (dunder_gt E a b s)) = calls s @ [(Elemwise ''LT'', args')])) \<and>
   (calls (snd (dunder_ge E a b s)) = calls s \<or>
    (\<exists>args'. calls (snd (dunder_ge E a b s)) = calls s @ [(Elemwise ''LEQ'', args')]))"
proof (intro conjI impI allI)
  assume h: "ext (convert_inputs_c E [b, a]) s = (Inr args, s1) \<and>
    apply_op E (Elemwise ''LT'') args s1 = (Inr [Wrapper q], s2)"
  show "dunder_gt E a b s = ext (astype_c E (Wrapper q) np_bool) s2"
    and "calls (snd (dunder_gt E a b s)) = calls s @ [(Elemwise ''LT'', args)]"
    unfolding dunder_gt_def
    using compare_ok [OF h [THEN conjunct1] h [THEN conjunct2]] by blast+
next
  assume h: "ext (convert_inputs_c E [b, a]) s = (Inr args, s1) \<and>
    apply_op E (Elemwise ''LEQ'') args s1 = (Inr [Wrapper q], s2)"
  show "dunder_ge E a b s = ext (astype_c E (Wrapper q) np_bool) s2"
    and "calls (snd (dunder_ge E a b s)) = calls s @ [(Elemwise ''LEQ'', args)]"
    unfolding dunder_ge_def
    using compare_ok [OF h [THEN conjunct1] h [THEN conjunct2]] by blast+
next
  assume h: "ext (convert_inputs_c E [a, b]) s = (Inr args, s1) \<and>
    apply_op E (Elemwise ''LT'') args s1 = (Inr [Wrapper q], s2)"
  show "dunder_lt E a b s = ext (astype_c E (Wrapper q) np_bool) s2"
    and "calls (snd (dunder_lt E a b s)) = calls s @ [(Elemwise ''LT'', args)]"
    unfolding dunder_lt_def
    using compare_ok [OF h [THEN conjunct1] h [THEN conjunct2]] by blast+
next
  assume h: "ext (convert_inputs_c E [a, b]) s = (Inr args, s1) \<and>
    apply_op E (Elemwise ''LEQ'') args s1 = (Inr [Wrapper q], s2)"
  show "dunder_le E a b s = ext (astype_c E (Wrapper q) np_bool) s2"
    and "calls (snd (dunder_le E a b s)) = calls s @ [(Elemwise ''LEQ'', args)]"
    unfolding dunder_le_def
    using compare_ok [OF h [THEN conjunct1] h [THEN conjunct2]] by blast+
next
  assume h: "ext (convert_inputs_c E [a, b]) s = (Inr args, s1) \<and>
    apply_op E (Elemwise ''EQ'') args s1 = (Inr [Wrapper q], s2)"
  note c = compare_ok [OF h [THEN conjunct1] h [THEN conjunct2]]
  show "dunder_eq E a b s = ext (astype_c E (Wrapper q) np_bool) s2"
    and "calls (snd (dunder_eq E a b s)) = calls s @ [(Elemwise ''EQ'', args)]"
    unfolding dunder_eq_def using c by blast+
  from c show "dunder_ne E a b s =
        bnd (ext (astype_c E (Wrapper q) np_bool)) (\<lambda>bv.
        bnd (ext (convert_inputs_c E [bv])) (\<lambda>args2.
        bnd (apply_op E (Elemwise ''NOT'') args2) unpack1)) s2"
    by (cases "ext (astype_c E (Wrapper q) np_bool) s2")
      (auto simp: dunder_ne_def bnd_def elwise_def split: sum.splits)
next
  fix e s'
  assume "ext (convert_inputs_c E [b, a]) s = (Inl e, s')"
  then show "dunder_gt E a b s = (Inl e, s')" and "dunder_ge E a b s = (Inl e, s')"
    by (simp_all add: dunder_gt_def dunder_ge_def bnd_def elwise_convert_fails)
next
  show "dunder_gt E a b = dunder_lt E b a" by (simp add: dunder_gt_def dunder_lt_def)
  show "dunder_ge E a b = dunder_le E b a" by (simp add: dunder_ge_def dunder_le_def)
  show "calls (snd (dunder_gt E a b s)) = calls s \<or>
    (\<exists>args'. calls (snd (dunder_gt E a b s)) = calls s @ [(Elemwise ''LT'', args')])"
    unfolding dunder_gt_def by (rule cmp_calls)
  show "calls (snd (dunder_ge E a b s)) = calls s \<or>
    (\<exists>args'. calls (snd (dunder_ge E a b s)) = calls s @ [(Elemwise ''LEQ'', args')])"
    unfolding dunder_ge_def by (rule cmp_calls)
qed

lemma demo_lt_6_4:
  "fst (apply_op demo_env (Elemwise ''LT'') [Wrapper 6, Wrapper 4] demo_state) =
     Inr [Wrapper 9] \<and>
   fst (ext (astype_c demo_env (Wrapper 9) np_bool)
     (snd (apply_op demo_env (Elemwise ''LT'') [Wrapper 6, Wrapper 4] demo_state))) =
     Inr (Wrapper 11) \<and>
   prim_of (snd (ext (astype_c demo_env (Wrapper 9) np_bool)
     (snd (apply_op demo_env (Elemwise ''LT'') [Wrapper 6, Wrapper 4] demo_state))))
     (Wrapper 11) =
     Some \<lparr>t_dtype = np_bool, t_shape = [], t_device = ''cpu0'', t_data = [PyBool True]\<rparr>"
  by (simp add: monad_defs demo_defs)

lemma demo_leq_4_6:
  "fst (apply_op demo_env (Elemwise ''LEQ'') [Wrapper 4, Wrapper 6] demo_state) =
     Inr [Wrapper 9] \<and>
   fst (ext (astype_c demo_env (Wrapper 9) np_bool)
     (snd (apply_op demo_env (Elemwise ''LEQ'') [Wrapper 4, Wrapper 6] demo_state))) =
     Inr (Wrapper 11) \<and>
   prim_of (snd (ext (astype_c demo_env (Wrapper 9) np_bool)
     (snd (apply_op demo_env (Elemwise ''LEQ'') [Wrapper 4, Wrapper 6] demo_state))))
     (Wrapper 11) =
     Some \<lparr>t_dtype = np_bool, t_shape = [1], t_device = ''cpu0'', t_data = [PyBool False]\<rparr>"
  by (simp add: monad_defs demo_defs)

theorem gt_ge_swap_witness:
  "fst (dunder_gt demo_env (Wrapper 4) (Wrapper 6) demo_state) = Inr (Wrapper 11) \<and>
   prim_of (snd (dunder_gt demo_env (Wrapper 4) (Wrapper 6) demo_state)) (Wrapper 11) =
     Some \<lparr>t_dtype = np_bool, t_shape = [], t_device = ''cpu0'', t_data = [PyBool True]\<rparr> \<and>
   calls (snd (dunder_gt demo_env (Wrapper 4) (Wrapper 6) demo_state)) =
     [(Elemwise ''LT'', [Wrapper 6, Wrapper 4])] \<and>
   fst (dunder_ge demo_env (Wrapper 6) (Wrapper 4) demo_state) = Inr (Wrapper 11) \<and>
   prim_of (snd (dunder_ge demo_env (Wrapper 6) (Wrapper 4) demo_state)) (Wrapper 11) =
     Some \<lparr>t_dtype = np_bool, t_shape = [1], t_device = ''cpu0'', t_data = [PyBool False]\<rparr> \<and>
   calls (snd (dunder_ge demo_env (Wrapper 6) (Wrapper 4) demo_state)) =
     [(Elemwise ''LEQ'', [Wrapper 4, Wrapper 6])]"
proof -
  define s2 where "s2 = snd (apply_op demo_env (Elemwise ''LT'') [Wrapper 6, Wrapper 4] demo_state)"
  have h2: "apply_op demo_env (Elemwise ''LT'') [Wrapper 6, Wrapper 4] demo_state =
      (Inr [Wrapper 9], s2)"
    unfolding s2_def using demo_lt_6_4 by (metis prod.collapse)
  from gt_ge_swap [where E = demo_env and a = "Wrapper 4" and b = "Wrapper 6"
      and s = demo_state and args = "[Wrapper 6, Wrapper 4]" and ?s1.0 = demo_state
      and q = 9 and ?s2.0 = s2, THEN conjunct1, THEN mp] h2 demo_convert
  have g: "dunder_gt demo_env (Wrapper 4) (Wrapper 6) demo_state =
        ext (astype_c demo_env (Wrapper 9) np_bool) s2"
    "calls (snd (dunder_gt demo_env (Wrapper 4) (Wrapper 6) demo_state)) =
        calls demo_state @ [(Elemwise ''LT'', [Wrapper 6, Wrapper 4])]"
    by blast+
  define s2' where "s2' = snd (apply_op demo_env (Elemwise ''LEQ'') [Wrapper 4, Wrapper 6] demo_state)"
  have h2': "apply_op demo_env (Elemwise ''LEQ'') [Wrapper 4, Wrapper 6] demo_state =
      (Inr [Wrapper 9], s2')"
    unfolding s2'_def using demo_leq_4_6 by (metis prod.collapse)
  from gt_ge_swap [where E = demo_env and a = "Wrapper 6" and b = "Wrapper 4"
      and s = demo_state and args = "[Wrapper 4, Wrapper 6]" and ?s1.0 = demo_state
      and q = 9 and ?s2.0 = s2', THEN conjunct2, THEN conjunct1, THEN mp] h2' demo_convert
  have g': "dunder_ge demo_env (Wrapper 6) (Wrapper 4) demo_state =
        ext (astype_c demo_env (Wrapper 9) np_bool) s2'"
    "calls (snd (dunder_ge demo_env (Wrapper 6) (Wrapper 4) demo_state)) =
        calls demo_state @ [(Elemwise ''LEQ'', [Wrapper 4, Wrapper 6])]"
    by blast+
  have c0: "calls demo_state = []" by (simp add: demo_state_def)
  from demo_lt_6_4 have v: "fst (ext (astype_c demo_env (Wrapper 9) np_bool) s2) = Inr (Wrapper 11)"
    "prim_of (snd (ext (astype_c demo_env (Wrapper 9) np_bool) s2)) (Wrapper 11) =
     Some \<lparr>t_dtype = np_bool, t_shape = [], t_device = ''cpu0'', t_data = [PyBool True]\<rparr>"
    unfolding s2_def by blast+
  from demo_leq_4_6 have v': "fst (ext (astype_c demo_env (Wrapper 9) np_bool) s2') = Inr (Wrapper 11)"
    "prim_of (snd (ext (astype_c demo_env (Wrapper 9) np_bool) s2')) (Wrapper 11) =
     Some \<lparr>t_dtype = np_bool, t_shape = [1], t_device = ''cpu0'', t_data = [PyBool False]\<rparr>"
    unfolding s2'_def by blast+
  from g(2) g'(2) c0
  have l: "calls (snd (dunder_gt demo_env (Wrapper 4) (Wrapper 6) demo_state)) =
        [(Elemwise ''LT'', [Wrapper 6, Wrapper 4])]"
    "calls (snd (dunder_ge demo_env (Wrapper 6) (Wrapper 4) demo_state)) =
        [(Elemwise ''LEQ'', [Wrapper 4, Wrapper 6])]"
    by simp_all
  from v v' show ?thesis
    unfolding l unfolding g(1) g'(1) by simp
qed

subsection \<open>Unary plus and len\<close>

text \<open>
  Claim C9. \<open>+x\<close> returns the wrapper \<open>x\<close> itself, and the state is unchanged: no
  primitive is invoked and no object is created.
\<close>

theorem pos_identity: "dunder_pos x s = (Inr x, s)"
  by (simp add: dunder_pos_def ret_def)

text \<open>
  Claim C7. \<open>len(x)\<close> is the first extent of the shape when the rank is at least one,
  and fails with \<open>TypeError("ndim is 0")\<close> exactly when the shape is empty.
\<close>

theorem len_first_extent:
  "prim_of s x = Some t \<Longrightarrow>
   (t_shape t = [] \<longrightarrow> dunder_len x s = (Inl (TypeError ''ndim is 0''), s)) \<and>
   (t_shape t \<noteq> [] \<longrightarrow> dunder_len x s = (Inr (int (hd (t_shape t))), s))"
  by (auto simp: dunder_len_def get_shape_def attr_prim_of bnd_def raise_def ret_def
      split: list.splits)

theorem len_first_extent_witness:
  "dunder_len (Wrapper 0) (demo_state\<lparr>prims := [1 \<mapsto> \<lparr>t_dtype = np_int32, t_shape = [3, 4],
       t_device = ''cpu0'', t_data = replicate 12 (PyInt 0)\<rparr>]\<rparr>) =
     (Inr 3, demo_state\<lparr>prims := [1 \<mapsto> \<lparr>t_dtype = np_int32, t_shape = [3, 4],
       t_device = ''cpu0'', t_data = replicate 12 (PyInt 0)\<rparr>]\<rparr>) \<and>
   dunder_len (Wrapper 6) demo_state = (Inl (TypeError ''ndim is 0''), demo_state)"
proof
  let ?t = "\<lparr>t_dtype = np_int32, t_shape = [3, 4], t_device = ''cpu0'',
             t_data = replicate 12 (PyInt 0)\<rparr>"
  let ?s = "demo_state\<lparr>prims := [1 \<mapsto> ?t]\<rparr>"
  have "prim_of ?s (Wrapper 0) = Some ?t" by (simp add: prim_of_unfold demo_state_def)
  from len_first_extent [OF this] show "dunder_len (Wrapper 0) ?s = (Inr 3, ?s)" by simp
next
  let ?t = "\<lparr>t_dtype = np_float32, t_shape = [], t_device = ''cpu0'',
                     t_data = [PyFloat (Finite 3 (- 1))]\<rparr>"
  have "prim_of demo_state (Wrapper 6) = Some ?t" by (simp add: prim_of_unfold demo_state_def)
  from len_first_extent [OF this]
  show "dunder_len (Wrapper 6) demo_state = (Inl (TypeError ''ndim is 0''), demo_state)" by simp
qed

subsection \<open>Conversions to Python scalars\<close>


lemma item_not_single:
  "prim_of s x = Some t \<Longrightarrow> prod_list (t_shape t) \<noteq> 1 \<Longrightarrow>
   item x s = (Inl (AssertionError []), s)"
  by (simp add: item_def size_p_def get_shape_def attr_prim_of bnd_def ret_def raise_def)

lemma item_single:
  "prim_of s x = Some t \<Longrightarrow> prod_list (t_shape t) = 1 \<Longrightarrow> t_data t = [v] \<Longrightarrow>
   item x s = (Inr v, s)"
  by (simp add: item_def size_p_def numpy_item_def get_shape_def attr_prim_of bnd_def ret_def)

lemma conversion_not_single:
  "prim_of s x = Some t \<Longrightarrow> prod_list (t_shape t) \<noteq> 1 \<Longrightarrow>
   conversion native x s = (Inl (AssertionError []), s)"
  by (simp add: conversion_def bnd_def item_not_single)

lemma conversion_single:
  "prim_of s x = Some t \<Longrightarrow> prod_list (t_shape t) = 1 \<Longrightarrow> t_data t = [v] \<Longrightarrow>
   conversion native x s = (native v, s)"
  by (cases "native v") (simp_all add: conversion_def bnd_def item_single lift_def)

lemma demo_prim4:
  "prim_of demo_state (Wrapper 4) =
     Some \<lparr>t_dtype = np_int32, t_shape = [1], t_device = ''cpu0'', t_data = [PyInt 5]\<rparr>"
  by (simp add: prim_of_unfold demo_state_def)

lemma demo_prim2:
  "prim_of demo_state (Wrapper 2) =
     Some \<lparr>t_dtype = np_bool, t_shape = [2], t_device = ''cpu0'',
           t_data = [PyBool True, PyBool False]\<rparr>"
  by (simp add: prim_of_unfold demo_state_def)

lemma demo_prim6:
  "prim_of demo_state (Wrapper 6) =
     Some \<lparr>t_dtype = np_float32, t_shape = [], t_device = ''cpu0'',
           t_data = [PyFloat (Finite 3 (- 1))]\<rparr>"
  by (simp add: prim_of_unfold demo_state_def)

text \<open>
  Claim C6, as amended. For a tensor \<open>x\<close>, each of \<open>__index__\<close>, \<open>__bool__\<close>,
  \<open>__int__\<close>, \<open>__float__\<close> and \<open>__complex__\<close> fails with the failed assertion of
  \<open>item\<close> when the number of elements of \<open>x\<close> is not one, and otherwise returns what
  the native conversion of the single element returns, which may itself be an error
  (\<open>__index__\<close> of a float, \<open>int\<close> of a NaN or of an infinity). The state is unchanged
  in both cases.
\<close>

theorem conversions_single_element:
  assumes "prim_of s x = Some t"
  shows "(prod_list (t_shape t) \<noteq> 1 \<longrightarrow>
            dunder_index x s = (Inl (AssertionError []), s) \<and>
            dunder_bool x s = (Inl (AssertionError []), s) \<and>
            dunder_int x s = (Inl (AssertionError []), s) \<and>
            dunder_float rnd x s = (Inl (AssertionError []), s) \<and>
            dunder_complex rnd x s = (Inl (AssertionError []), s)) \<and>
         (prod_list (t_shape t) = 1 \<and> t_data t = [v] \<longrightarrow>
            dunder_index x s = (py_index v, s) \<and>
            dunder_bool x s = (py_bool v, s) \<and>
            dunder_int x s = (py_int v, s) \<and>
            dunder_float rnd x s = (py_float rnd v, s) \<and>
            dunder_complex rnd x s = (py_complex rnd v, s))"
  using assms
  by (simp add: dunder_index_def dunder_bool_def dunder_int_def dunder_float_def
      dunder_complex_def conversion_not_single conversion_single)

theorem conversions_single_element_witness:
  "dunder_int (Wrapper 4) demo_state = (Inr 5, demo_state) \<and>
   dunder_bool (Wrapper 4) demo_state = (Inr True, demo_state) \<and>
   dunder_int (Wrapper 2) demo_state = (Inl (AssertionError []), demo_state) \<and>
   dunder_bool (Wrapper 2) demo_state = (Inl (AssertionError []), demo_state)"
  using conversions_single_element [OF demo_prim4, where v = "PyInt 5"]
    conversions_single_element [OF demo_prim2]
  by (simp add: py_int_def py_bool_def)

theorem index_of_float_counterexample:
  "prim_of demo_state (Wrapper 6) =
     Some \<lparr>t_dtype = np_float32, t_shape = [], t_device = ''cpu0'',
           t_data = [PyFloat (Finite 3 (- 1))]\<rparr> \<and>
   prod_list [] = (1 :: nat) \<and>
   dunder_index (Wrapper 6) demo_state = (Inl (AttributeError ''__index__''), demo_state)"
  using conversion_single [OF demo_prim6, where v = "PyFloat (Finite 3 (- 1))" and native = py_index]
    demo_prim6
  by (simp add: dunder_index_def py_index_def)

subsection \<open>Logical operators\<close>

text \<open>
  On tensors the guard works as it announces: if either operand is a tensor that is not
  boolean, the operator raises \<open>TypeError\<close> and the state is returned as it was, so
  neither \<open>convert_inputs\<close> nor the primitive has been called. A left operand that is
  not boolean is rejected whatever the other operand is.
\<close>

lemma logical_guard_tensors:
  assumes "prim_of s a = Some ta"
  shows "(t_dtype ta \<noteq> np_bool \<longrightarrow>
            logical_binary_elwise E mode rv a b s =
              (Inl (TypeError (mode @ '' requires 2 bool tensors'')), s) \<and>
            logical_unary_elwise E mode a s =
              (Inl (TypeError (mode @ '' requires a bool tensor'')), s)) \<and>
         (t_dtype ta = np_bool \<and> prim_of s b = Some tb \<and> t_dtype tb \<noteq> np_bool \<longrightarrow>
            logical_binary_elwise E mode rv a b s =
              (Inl (TypeError (mode @ '' requires 2 bool tensors'')), s))"
  using assms
  by (simp add: logical_binary_elwise_def logical_unary_elwise_def get_dtype_def attr_prim_of
      bnd_def raise_def)

lemma logical_guard_tensors_demo:
  "dunder_and demo_env (Wrapper 0) (Wrapper 2) demo_state =
     (Inl (TypeError ''AND requires 2 bool tensors''), demo_state) \<and>
   dunder_invert demo_env (Wrapper 0) demo_state =
     (Inl (TypeError ''NOT requires a bool tensor''), demo_state) \<and>
   dunder_ror demo_env (Wrapper 2) (Wrapper 0) demo_state =
     (Inl (TypeError ''OR requires 2 bool tensors''), demo_state)"
  using logical_guard_tensors [OF demo_prim0, where E = demo_env and mode = "''AND''"
      and rv = False and b = "Wrapper 2"]
    logical_guard_tensors [OF demo_prim0, where E = demo_env and mode = "''NOT''"]
    logical_guard_tensors [OF demo_prim2, where E = demo_env and mode = "''OR''"
      and rv = True and b = "Wrapper 0"
      and tb = "\<lparr>t_dtype = np_int32, t_shape = [2, 3], t_device = ''cpu0'',
         t_data = map PyInt [1, 2, 3, 4, 5, 6]\<rparr>"] demo_prim0
  by (simp add: dunder_and_def dunder_invert_def dunder_ror_def)

text \<open>
  Claim C5. The guard is meant to reject every pair of operands that are not both boolean
  with \<open>TypeError\<close>, before the primitive is invoked. It misses one case: with a boolean
  tensor as \<open>self\<close> and a raw Python integer as the other operand (\<open>x & 3\<close>, or
  \<open>3 & x\<close> through \<open>__rand__\<close>), the test reads \<open>value.dtype\<close>, which an integer does
  not have, and the operator ends in \<open>AttributeError\<close> instead of \<open>TypeError\<close>. The
  same raw operand next to a tensor that is not boolean does get the \<open>TypeError\<close>,
  since then \<open>value.dtype\<close> is never read. In all three runs the state is unchanged.
\<close>

theorem logical_raw_operand_failure:
  "dunder_and demo_env (Wrapper 2) (PyScalar (PyInt 3)) demo_state =
     (Inl (AttributeError ''dtype''), demo_state) \<and>
   dunder_rand demo_env (Wrapper 2) (PyScalar (PyInt 3)) demo_state =
     (Inl (AttributeError ''dtype''), demo_state) \<and>
   dunder_and demo_env (Wrapper 0) (PyScalar (PyInt 3)) demo_state =
     (Inl (TypeError ''AND requires 2 bool tensors''), demo_state)"
proof -
  have n: "prim_of demo_state (PyScalar (PyInt 3)) = None"
    "forward recursion_limit demo_state (PyScalar (PyInt 3)) \<noteq> TooDeep"
    by (simp_all add: prim_of_def forward_simps)
  show ?thesis
    by (simp add: dunder_and_def dunder_rand_def logical_binary_elwise_def get_dtype_def
        attr_prim_of bnd_def raise_def demo_prim2 demo_prim0 n)
qed

text \<open>
  The attributes forward through nested wrappers: a \<open>GenericTensorWrapper\<close> around the
  boolean wrapper 2 has its \<open>dtype\<close>, and passes the guard.
\<close>

lemma nested_wrapper_dtype:
  "get_dtype (Wrapper 8)
     (demo_state\<lparr>wrappers := (wrappers demo_state)(8 \<mapsto>
        \<lparr>w_class = GenericTensorWrapper, w_wrapped = Wrapper 2\<rparr>)\<rparr>) =
   (Inr np_bool,
    demo_state\<lparr>wrappers := (wrappers demo_state)(8 \<mapsto>
        \<lparr>w_class = GenericTensorWrapper, w_wrapped = Wrapper 2\<rparr>)\<rparr>)"
  by (simp add: get_dtype_def attr_def recursion_limit_def forward_simps demo_state_def)

subsection \<open>In-place operators\<close>


lemma reset_wrapper:
  "wrappers s a = Some w \<Longrightarrow> wrappers s b = Some wr \<Longrightarrow>
   reset E (Wrapper a) (Wrapper b) s =
     (Inr (), s\<lparr>wrappers := (wrappers s)(a \<mapsto> w\<lparr>w_wrapped := w_wrapped wr\<rparr>)\<rparr>)"
  by (cases "w_class w")
    (simp_all add: reset_def is_wrapper_def bnd_def get_wrapped_def set_wrapped_def raise_def)

lemma reset_prim:
  "wrappers s a = Some w \<Longrightarrow> w_class w = TensorWrapper \<Longrightarrow>
   reset E (Wrapper a) (Prim p) s =
     (Inr (), s\<lparr>wrappers := (wrappers s)(a \<mapsto> w\<lparr>w_wrapped := Prim p\<rparr>)\<rparr>)"
  by (simp add: reset_def is_wrapper_def is_prim_def set_wrapped_def)

lemma prim_of_rebound:
  "wrappers s b = Some wr \<Longrightarrow>
   prim_of (s\<lparr>wrappers := (wrappers s)(a \<mapsto> w\<lparr>w_wrapped := w_wrapped wr\<rparr>)\<rparr>) (Wrapper a) =
     prim_of (s\<lparr>wrappers := (wrappers s)(a \<mapsto> w\<lparr>w_wrapped := w_wrapped wr\<rparr>)\<rparr>) (Wrapper b)"
  by (simp add: prim_of_unfold)

lemma prim_of_rebound_direct:
  "wrappers s b = Some wr \<Longrightarrow> \<not> is_wrapper (w_wrapped wr) \<Longrightarrow>
   prim_of (s\<lparr>wrappers := (wrappers s)(a \<mapsto> w\<lparr>w_wrapped := w_wrapped wr\<rparr>)\<rparr>) (Wrapper a) =
     prim_of s (Wrapper b)"
  by (simp add: prim_of_unfold is_wrapper_def split: pyval.splits)

lemma demo_add_0_0:
  "fst (dunder_add demo_env (Wrapper 0) (Wrapper 0) demo_state) = Inr (Wrapper 9) \<and>
   wrappers (snd (dunder_add demo_env (Wrapper 0) (Wrapper 0) demo_state)) 0 =
     Some \<lparr>w_class = TensorWrapper, w_wrapped = Prim 1\<rparr> \<and>
   wrappers (snd (dunder_add demo_env (Wrapper 0) (Wrapper 0) demo_state)) 9 =
     Some \<lparr>w_class = TensorWrapper, w_wrapped = Prim 8\<rparr> \<and>
   map_option t_data (prim_of (snd (dunder_add demo_env (Wrapper 0) (Wrapper 0) demo_state))
       (Wrapper 9)) = Some (map PyInt [2, 4, 6, 8, 10, 12])"
  by (simp add: dunder_add_def binary_elwise_def elwise_def monad_defs demo_defs)

lemma inplace_operators_form:
  "length (inplace_operators E) = 13 \<and> (\<forall>g\<in>set (inplace_operators E). \<exists>f. g = inplace E f)"
  by (auto simp: inplace_operators_def)

text \<open>
  Claim C4. \<open>_inplace(f)\<close> computes \<open>f(self, value)\<close> first. If that raises, the error
  is passed on; if it returns \<open>NotImplemented\<close>, \<open>NotImplementedError\<close> is raised; in
  both cases the state is the one \<open>f\<close> left, so \<open>_inplace\<close> itself has changed nothing.
  Otherwise \<open>_reset\<close> runs on the state that \<open>f\<close> left: when \<open>f\<close> returned a wrapper
  (what the operators return), the \<open>__wrapped__\<close> slot of \<open>self\<close> takes the result's
  underlying reference, the same wrapper \<open>self\<close> is returned, and from then on it
  denotes the same tensor as the result does, which, when the result wraps its tensor
  directly, is the tensor the result had when \<open>f\<close> returned; a \<open>TensorWrapper\<close> takes a
  primitive tensor directly.
  The statement is for every \<open>f\<close>, so it holds for each of the thirteen operators of
  \<open>inplace_operators\<close>.
\<close>

theorem inplace_rebinds:
  "(f x y s = (Inl e, s1) \<longrightarrow> inplace E f x y s = (Inl e, s1)) \<and>
   (f x y s = (Inr NotImplemented, s1) \<longrightarrow> inplace E f x y s = (Inl NotImplementedError, s1)) \<and>
   (f x y s = (Inr r, s1) \<and> r \<noteq> NotImplemented \<longrightarrow>
      inplace E f x y s = bnd (reset E x r) (\<lambda>_. ret x) s1) \<and>
   (x = Wrapper a \<and> f x y s = (Inr (Wrapper b), s1) \<and>
    wrappers s1 a = Some w \<and> wrappers s1 b = Some wr \<longrightarrow>
      inplace E f x y s =
        (Inr x, s1\<lparr>wrappers := (wrappers s1)(a \<mapsto> w\<lparr>w_wrapped := w_wrapped wr\<rparr>)\<rparr>) \<and>
      prim_of (snd (inplace E f x y s)) x = prim_of (snd (inplace E f x y s)) (Wrapper b) \<and>
      (\<not> is_wrapper (w_wrapped wr) \<longrightarrow>
         prim_of (snd (inplace E f x y s)) x = prim_of s1 (Wrapper b))) \<and>
   (x = Wrapper a \<and> f x y s = (Inr (Prim p), s1) \<and>
    wrappers s1 a = Some w \<and> w_class w = TensorWrapper \<longrightarrow>
      inplace E f x y s =
        (Inr x, s1\<lparr>wrappers := (wrappers s1)(a \<mapsto> w\<lparr>w_wrapped := Prim p\<rparr>)\<rparr>))"
proof (intro conjI impI)
  assume "f x y s = (Inl e, s1)"
  then show "inplace E f x y s = (Inl e, s1)" by (simp add: inplace_def bnd_def)
next
  assume "f x y s = (Inr NotImplemented, s1)"
  then show "inplace E f x y s = (Inl NotImplementedError, s1)"
    by (simp add: inplace_def bnd_def raise_def)
next
  assume "f x y s = (Inr r, s1) \<and> r \<noteq> NotImplemented"
  then show "inplace E f x y s = bnd (reset E x r) (\<lambda>_. ret x) s1"
    by (simp add: inplace_def bnd_def)
next
  assume a: "x = Wrapper a \<and> f x y s = (Inr (Wrapper b), s1) \<and>
    wrappers s1 a = Some w \<and> wrappers s1 b = Some wr"
  then show i: "inplace E f x y s =
        (Inr x, s1\<lparr>wrappers := (wrappers s1)(a \<mapsto> w\<lparr>w_wrapped := w_wrapped wr\<rparr>)\<rparr>)"
    by (clarsimp simp: inplace_def bnd_def reset_wrapper ret_def)
  from a have wb: "wrappers s1 b = Some wr" by simp
  from a i prim_of_rebound [OF wb, of a w]
  show "prim_of (snd (inplace E f x y s)) x = prim_of (snd (inplace E f x y s)) (Wrapper b)"
    by simp
next
  assume a: "x = Wrapper a \<and> f x y s = (Inr (Wrapper b), s1) \<and>
    wrappers s1 a = Some w \<and> wrappers s1 b = Some wr"
    and n: "\<not> is_wrapper (w_wrapped wr)"
  from a have i: "inplace E f x y s =
        (Inr x, s1\<lparr>wrappers := (wrappers s1)(a \<mapsto> w\<lparr>w_wrapped := w_wrapped wr\<rparr>)\<rparr>)"
    by (clarsimp simp: inplace_def bnd_def reset_wrapper ret_def)
  from a have wb: "wrappers s1 b = Some wr" by simp
  from a i prim_of_rebound_direct [OF wb n, of a w]
  show "prim_of (snd (inplace E f x y s)) x = prim_of s1 (Wrapper b)"
    by simp
next
  assume "x = Wrapper a \<and> f x y s = (Inr (Prim p), s1) \<and>
    wrappers s1 a = Some w \<and> w_class w = TensorWrapper"
  then show "inplace E f x y s =
        (Inr x, s1\<lparr>wrappers := (wrappers s1)(a \<mapsto> w\<lparr>w_wrapped := Prim p\<rparr>)\<rparr>)"
    by (clarsimp simp: inplace_def bnd_def reset_prim ret_def)
qed

theorem inplace_rebinds_witness:
  "inplace demo_env (\<lambda>_ _. ret NotImplemented) (Wrapper 0) (Wrapper 0) demo_state =
     (Inl NotImplementedError, demo_state) \<and>
   inplace demo_env (dunder_and demo_env) (Wrapper 0) (Wrapper 2) demo_state =
     (Inl (TypeError ''AND requires 2 bool tensors''), demo_state) \<and>
   fst (dunder_iadd demo_env (Wrapper 0) (Wrapper 0) demo_state) = Inr (Wrapper 0) \<and>
   map_option t_data (prim_of (snd (dunder_iadd demo_env (Wrapper 0) (Wrapper 0) demo_state))
       (Wrapper 0)) = Some (map PyInt [2, 4, 6, 8, 10, 12]) \<and>
   inplace demo_env (\<lambda>_ _. ret (Prim 3)) (Wrapper 0) (Wrapper 0) demo_state =
     (Inr (Wrapper 0), demo_state\<lparr>wrappers := (wrappers demo_state)(0 \<mapsto>
        \<lparr>w_class = TensorWrapper, w_wrapped = Prim 3\<rparr>)\<rparr>)"
proof (intro conjI)
  show "inplace demo_env (\<lambda>_ _. ret NotImplemented) (Wrapper 0) (Wrapper 0) demo_state =
     (Inl NotImplementedError, demo_state)"
    using inplace_rebinds [where f = "\<lambda>_ _. ret NotImplemented" and x = "Wrapper 0"
        and y = "Wrapper 0" and s = demo_state and ?s1.0 = demo_state and E = demo_env]
    by (simp add: ret_def)
next
  have "dunder_and demo_env (Wrapper 0) (Wrapper 2) demo_state =
          (Inl (TypeError ''AND requires 2 bool tensors''), demo_state)"
    by (simp add: dunder_and_def logical_binary_elwise_def get_dtype_def attr_prim_of bnd_def
        raise_def demo_prim0)
  with inplace_rebinds [where f = "dunder_and demo_env" and x = "Wrapper 0"
      and y = "Wrapper 2" and s = demo_state and ?s1.0 = demo_state and E = demo_env
      and e = "TypeError ''AND requires 2 bool tensors''"]
  show "inplace demo_env (dunder_and demo_env) (Wrapper 0) (Wrapper 2) demo_state =
     (Inl (TypeError ''AND requires 2 bool tensors''), demo_state)"
    by simp
next
  define s1 where "s1 = snd (dunder_add demo_env (Wrapper 0) (Wrapper 0) demo_state)"
  have f: "dunder_add demo_env (Wrapper 0) (Wrapper 0) demo_state = (Inr (Wrapper 9), s1)"
    unfolding s1_def using demo_add_0_0 by (metis prod.collapse)
  have w: "wrappers s1 0 = Some \<lparr>w_class = TensorWrapper, w_wrapped = Prim 1\<rparr>"
    "wrappers s1 9 = Some \<lparr>w_class = TensorWrapper, w_wrapped = Prim 8\<rparr>"
    "map_option t_data (prim_of s1 (Wrapper 9)) = Some (map PyInt [2, 4, 6, 8, 10, 12])"
    unfolding s1_def using demo_add_0_0 by simp_all
  have nw: "\<not> is_wrapper (w_wrapped \<lparr>w_class = TensorWrapper, w_wrapped = Prim 8\<rparr>)"
    by (simp add: is_wrapper_def)
  from nw inplace_rebinds [where f = "dunder_add demo_env" and x = "Wrapper 0" and a = 0
      and y = "Wrapper 0" and s = demo_state and ?s1.0 = s1 and E = demo_env and b = 9
      and w = "\<lparr>w_class = TensorWrapper, w_wrapped = Prim 1\<rparr>"
      and wr = "\<lparr>w_class = TensorWrapper, w_wrapped = Prim 8\<rparr>"] f w(1,2)
  have r: "fst (inplace demo_env (dunder_add demo_env) (Wrapper 0) (Wrapper 0) demo_state) =
          Inr (Wrapper 0)"
    "prim_of (snd (inplace demo_env (dunder_add demo_env) (Wrapper 0) (Wrapper 0) demo_state))
       (Wrapper 0) = prim_of s1 (Wrapper 9)"
    by (metis fst_conv)+
  from r(1) show "fst (dunder_iadd demo_env (Wrapper 0) (Wrapper 0) demo_state) = Inr (Wrapper 0)"
    by (simp add: dunder_iadd_def)
  from r(2) w(3) show "map_option t_data
      (prim_of (snd (dunder_iadd demo_env (Wrapper 0) (Wrapper 0) demo_state)) (Wrapper 0)) =
      Some (map PyInt [2, 4, 6, 8, 10, 12])"
    by (simp add: dunder_iadd_def)
next
  show "inplace demo_env (\<lambda>_ _. ret (Prim 3)) (Wrapper 0) (Wrapper 0) demo_state =
     (Inr (Wrapper 0), demo_state\<lparr>wrappers := (wrappers demo_state)(0 \<mapsto>
        \<lparr>w_class = TensorWrapper, w_wrapped = Prim 3\<rparr>)\<rparr>)"
    using inplace_rebinds [where f = "\<lambda>_ _. ret (Prim 3)" and x = "Wrapper 0" and a = 0
        and y = "Wrapper 0" and s = demo_state and ?s1.0 = demo_state and E = demo_env
        and p = 3 and w = "\<lparr>w_class = TensorWrapper, w_wrapped = Prim 1\<rparr>"] demo_wrapper0
    by (simp add: ret_def)
qed

subsection \<open>Construction of a TensorWrapper\<close>

lemma demo_wf: "wf_state demo_state"
  by (auto simp: wf_state_def demo_state_def)

text \<open>
  Claim C8. \<open>TensorWrapper(None)\<close> fails with the assertion error and leaves the state
  as it was. \<open>TensorWrapper(w)\<close> for a wrapper \<open>w\<close> creates a wrapper whose
  \<open>__wrapped__\<close> is the very reference that \<open>w\<close> holds, and creates no tensor. For a
  raw scalar or sequence, \<open>as_raw_tensor\<close> is called: its error is passed on, and its
  result becomes a new primitive tensor, at an identity that no tensor had before, which
  the new wrapper holds.
\<close>

theorem TensorWrapper_init_cases:
  "TensorWrapper_init E PyNone dt dev s =
     (Inl (AssertionError ''Cannot init a tensor with data as None''), s) \<and>
   (wrappers s b = Some w \<longrightarrow>
      TensorWrapper_init E (Wrapper b) dt dev s =
        (Inr (Wrapper (next_id s)),
         s\<lparr>wrappers := (wrappers s)(next_id s \<mapsto>
              \<lparr>w_class = TensorWrapper, w_wrapped = w_wrapped w\<rparr>),
           next_id := Suc (next_id s)\<rparr>)) \<and>
   (data = PyScalar v \<or> data = PySeq vs \<longrightarrow>
      (\<forall>e s1. ext (as_raw_tensor_c E data dt dev) s = (Inl e, s1) \<longrightarrow>
         TensorWrapper_init E data dt dev s = (Inl e, s1)) \<and>
      (\<forall>raw s1. ext (as_raw_tensor_c E data dt dev) s = (Inr raw, s1) \<longrightarrow>
         TensorWrapper_init E data dt dev s =
           (Inr (Wrapper (Suc (next_id s1))),
            s1\<lparr>prims := (prims s1)(next_id s1 \<mapsto> raw),
               wrappers := (wrappers s1)(Suc (next_id s1) \<mapsto>
                 \<lparr>w_class = TensorWrapper, w_wrapped = Prim (next_id s1)\<rparr>),
               next_id := Suc (Suc (next_id s1))\<rparr>) \<and>
         (wf_state s1 \<longrightarrow> next_id s1 \<notin> dom (prims s1))))"
  by (auto simp: TensorWrapper_init_def is_wrapper_def is_prim_def raise_def bnd_def
      get_wrapped_def new_wrapper_def new_prim_def wf_state_def)

theorem TensorWrapper_init_cases_witness:
  "TensorWrapper_init demo_env (Wrapper 0) None None demo_state =
     (Inr (Wrapper 8),
      demo_state\<lparr>wrappers := (wrappers demo_state)(8 \<mapsto>
          \<lparr>w_class = TensorWrapper, w_wrapped = Prim 1\<rparr>), next_id := 9\<rparr>) \<and>
   TensorWrapper_init demo_env (PySeq [PyInt 1, PyInt 2]) None None demo_state =
     (Inr (Wrapper 9),
      demo_state\<lparr>prims := (prims demo_state)(8 \<mapsto>
          \<lparr>t_dtype = np_int32, t_shape = [2], t_device = ''cpu0'',
           t_data = [PyInt 1, PyInt 2]\<rparr>),
        wrappers := (wrappers demo_state)(9 \<mapsto>
          \<lparr>w_class = TensorWrapper, w_wrapped = Prim 8\<rparr>), next_id := 10\<rparr>) \<and>
   8 \<notin> dom (prims demo_state) \<and>
   TensorWrapper_init (demo_env\<lparr>as_raw_tensor_c := \<lambda>_ _ _. raise (EngineError ''no device'')\<rparr>)
       (PyScalar (PyInt 1)) None None demo_state =
     (Inl (EngineError ''no device''), demo_state)"
proof (intro conjI)
  show "TensorWrapper_init demo_env (Wrapper 0) None None demo_state =
     (Inr (Wrapper 8),
      demo_state\<lparr>wrappers := (wrappers demo_state)(8 \<mapsto>
          \<lparr>w_class = TensorWrapper, w_wrapped = Prim 1\<rparr>), next_id := 9\<rparr>)"
    using TensorWrapper_init_cases [where E = demo_env and s = demo_state and b = 0
        and w = "\<lparr>w_class = TensorWrapper, w_wrapped = Prim 1\<rparr>" and dt = None and dev = None]
      demo_wrapper0
    by (simp add: demo_state_def)
next
  let ?raw = "\<lparr>t_dtype = np_int32, t_shape = [2], t_device = ''cpu0'',
           t_data = [PyInt 1, PyInt 2]\<rparr>"
  have e: "ext (as_raw_tensor_c demo_env (PySeq [PyInt 1, PyInt 2]) None None) demo_state =
          (Inr ?raw, demo_state)"
    by (simp add: ext_def demo_env_def demo_raw_def ret_def)
  have n: "next_id demo_state = 8" by (simp add: demo_state_def)
  from TensorWrapper_init_cases [where E = demo_env and s = demo_state
      and data = "PySeq [PyInt 1, PyInt 2]" and vs = "[PyInt 1, PyInt 2]"
      and dt = None and dev = None] e demo_wf
  have r: "TensorWrapper_init demo_env (PySeq [PyInt 1, PyInt 2]) None None demo_state =
           (Inr (Wrapper (Suc (next_id demo_state))),
            demo_state\<lparr>prims := (prims demo_state)(next_id demo_state \<mapsto> ?raw),
               wrappers := (wrappers demo_state)(Suc (next_id demo_state) \<mapsto>
                 \<lparr>w_class = TensorWrapper, w_wrapped = Prim (next_id demo_state)\<rparr>),
               next_id := Suc (Suc (next_id demo_state))\<rparr>)"
    "next_id demo_state \<notin> dom (prims demo_state)"
    by blast+
  from r(1) show "TensorWrapper_init demo_env (PySeq [PyInt 1, PyInt 2]) None None demo_state =
     (Inr (Wrapper 9),
      demo_state\<lparr>prims := (prims demo_state)(8 \<mapsto> ?raw),
        wrappers := (wrappers demo_state)(9 \<mapsto>
          \<lparr>w_class = TensorWrapper, w_wrapped = Prim 8\<rparr>), next_id := 10\<rparr>)"
    by (simp add: n)
  from r(2) show "8 \<notin> dom (prims demo_state)" by (simp add: n)
next
  let ?E = "demo_env\<lparr>as_raw_tensor_c := \<lambda>_ _ _. raise (EngineError ''no device'')\<rparr>"
  have e: "ext (as_raw_tensor_c ?E (PyScalar (PyInt 1)) None None) demo_state =
          (Inl (EngineError ''no device''), demo_state)"
    by (simp add: ext_def raise_def)
  from TensorWrapper_init_cases [where E = ?E and s = demo_state
      and data = "PyScalar (PyInt 1)" and v = "PyInt 1" and dt = None and dev = None] e
  show "TensorWrapper_init ?E (PyScalar (PyInt 1)) None None demo_state =
     (Inl (EngineError ''no device''), demo_state)"
    by blast
qed

subsection \<open>Reductions\<close>

lemma scan_flat: "reshape_scan 0 None [- 1] = Inr (Some 0)"
  by simp

lemma flatten_converted:
  "prim_of s x = Some t \<Longrightarrow>
   ext (Const_c E [- 1] np_int32 (t_device t) x) s = (Inr [c], sA) \<Longrightarrow>
   flatten E x s = bnd (apply_op E (Reshape (Some 0)) [x, c]) unpack1 sA"
  by (simp add: flatten_def reshape_valid [OF scan_flat])

lemma flatten_ok:
  assumes "prim_of s x = Some t"
    and "ext (Const_c E [- 1] np_int32 (t_device t) x) s = (Inr [c], sA)"
    and "apply_op E (Reshape (Some 0)) [x, c] sA = (Inr [f], s1)"
  shows "flatten E x s = (Inr f, s1)"
    and "calls s1 = calls s @ [(Reshape (Some 0), [x, c])]"
proof -
  from assms show "flatten E x s = (Inr f, s1)"
    by (simp add: flatten_converted bnd_def unpack1_def ret_def)
  from assms(2) have "calls sA = calls s" by (rule ext_calls)
  with apply_op_calls_eq [OF assms(3)]
  show "calls s1 = calls s @ [(Reshape (Some 0), [x, c])]" by simp
qed

lemma flatten_Inr_cases:
  assumes "flatten E x s = (Inr f, s1)"
  shows "\<exists>t c sA. prim_of s x = Some t \<and>
           ext (Const_c E [- 1] np_int32 (t_device t) x) s = (Inr [c], sA) \<and>
           apply_op E (Reshape (Some 0)) [x, c] sA = (Inr [f], s1)"
proof -
  from assms obtain t where t: "prim_of s x = Some t"
    by (cases "prim_of s x")
      (auto simp: flatten_def reshape_def bnd_def get_device_def attr_prim_of)
  obtain r0 sA where p: "ext (Const_c E [- 1] np_int32 (t_device t) x) s = (r0, sA)"
    by (cases "ext (Const_c E [- 1] np_int32 (t_device t) x) s")
  from assms t p obtain c where r0: "r0 = Inr [c]"
    by (cases r0)
      (auto simp: flatten_def reshape_def bnd_def get_device_def attr_prim_of unpack1_def
        raise_def split: list.splits)
  from t p r0 have e: "flatten E x s = bnd (apply_op E (Reshape (Some 0)) [x, c]) unpack1 sA"
    by (simp add: flatten_converted)
  obtain r1 s1' where q: "apply_op E (Reshape (Some 0)) [x, c] sA = (r1, s1')"
    by (cases "apply_op E (Reshape (Some 0)) [x, c] sA")
  from assms e q have "r1 = Inr [f] \<and> s1' = s1"
    by (cases r1)
      (auto simp: bnd_def unpack1_def ret_def raise_def split: list.splits)
  with t p r0 q show ?thesis by auto
qed

lemma reduce_converted:
  "ext (convert_inputs_c E [inp]) s = (Inr [r], s2) \<Longrightarrow>
   reduce E mode inp (Some ax) s = bnd (apply_op E (Reduce mode ax) [r]) unpack1 s2"
  by (simp add: reduce_def bnd_def ret_def unpack1_def)

lemma reduce_None:
  "reduce E mode x None = bnd (flatten E x) (\<lambda>inp. reduce E mode inp (Some 0))"
  by (rule ext) (simp add: reduce_def bnd_def ret_def split: prod.splits sum.splits)

lemma same_outcome_refl_error: "same_outcome (Inl e, s) (Inl e, s')"
  by (simp add: same_outcome_def)

subsubsection \<open>The small engine computes on values\<close>

lemma demo_new_eq:
  "demo_new t s =
     (Inr (Wrapper (Suc (next_id s))),
      s\<lparr>prims := (prims s)(next_id s \<mapsto> t),
        wrappers := (wrappers s)(Suc (next_id s) \<mapsto>
           \<lparr>w_class = TensorWrapper, w_wrapped = Prim (next_id s)\<rparr>),
        next_id := Suc (Suc (next_id s))\<rparr>)"
  by (simp add: demo_new_def bnd_def new_prim_def new_wrapper_def)

lemma prim_of_fresh:
  "prim_of (s\<lparr>prims := (prims s)(n \<mapsto> t),
              wrappers := (wrappers s)(Suc n \<mapsto> \<lparr>w_class = c, w_wrapped = Prim n\<rparr>),
              next_id := m\<rparr>) (Wrapper (Suc n)) = Some t"
  by (simp add: prim_of_unfold)

lemma prim_of_fresh_calls:
  "prim_of (s\<lparr>prims := (prims s)(n \<mapsto> t),
              wrappers := (wrappers s)(Suc n \<mapsto> \<lparr>w_class = c, w_wrapped = Prim n\<rparr>),
              next_id := m, calls := l\<rparr>) (Wrapper (Suc n)) = Some t"
  by (simp add: prim_of_unfold)

lemma demo_apply_one:
  "prim_of s a = Some t \<Longrightarrow> demo_sem op [t] = Inr t' \<Longrightarrow>
   \<exists>r s'. bnd (apply_op demo_env op [a]) unpack1 s = (Inr r, s') \<and> prim_of s' r = Some t'"
  by (simp add: bnd_def ret_def unpack1_def apply_op_def demo_env_def demo_apply_def
      demo_new_eq prim_of_fresh_calls)

lemma demo_apply_by_value: "apply_by_value demo_env (Reduce mode ax)"
  unfolding apply_by_value_def
proof (intro allI impI)
  fix a sa b sb
  assume h: "prim_of sa a \<noteq> None \<and> prim_of sa a = prim_of sb b"
  then have n: "prim_of sa a \<noteq> None" by (rule conjunct1)
  from h have e: "prim_of sa a = prim_of sb b" by (rule conjunct2)
  from n obtain t where ta: "prim_of sa a = Some t" by (cases "prim_of sa a") simp_all
  with e have tb: "prim_of sb b = Some t" by simp
  have d: "demo_sem (Reduce mode ax) [t] =
      Inr (t\<lparr>t_shape := [1], t_data := [PyInt (sum_list (map demo_int (t_data t)))]\<rparr>)"
    by simp
  from demo_apply_one [OF ta d] demo_apply_one [OF tb d]
  show "same_outcome (bnd (apply_op demo_env (Reduce mode ax) [a]) unpack1 sa)
     (bnd (apply_op demo_env (Reduce mode ax) [b]) unpack1 sb)"
    by (auto simp: same_outcome_def)
qed

lemma demo_conv_keeps: "conv_keeps demo_env"
  by (simp add: conv_keeps_def demo_convert)

lemma demo_flat_first:
  "ext (Const_c demo_env [- 1] np_int32 dev x) s = (Inr [c], sA) \<Longrightarrow>
   apply_op demo_env (Reshape (Some 0)) [x, c] sA = (Inr [f], s1) \<Longrightarrow>
   \<exists>t. fresh_flat s1 f t"
  by (auto simp: bnd_def ret_def ext_def demo_env_def apply_op_def demo_apply_def
      demo_Const_def demo_new_eq fresh_flat_def demo_shape_def demo_int_def py_int_def
      prim_of_fresh prim_of_fresh_calls
      split: option.splits sum.splits prod.splits list.splits if_splits)

lemma demo_flat_again:
  "fresh_flat s f t \<Longrightarrow>
   \<exists>c2 sC f2 s3. prim_of s f = Some t \<and>
     ext (Const_c demo_env [- 1] np_int32 (t_device t) f) s = (Inr [c2], sC) \<and>
     apply_op demo_env (Reshape (Some 0)) [f, c2] sC = (Inr [f2], s3) \<and>
     prim_of s3 f2 = Some t"
  by (auto simp: bnd_def ret_def ext_def demo_env_def apply_op_def demo_apply_def
      demo_Const_def demo_new_eq fresh_flat_def prim_of_unfold demo_shape_def demo_int_def
      py_int_def)

lemma demo_flat_fixed: "flat_fixed demo_env"
  unfolding flat_fixed_def
proof (intro allI impI)
  fix x s dev c sA f s1
  assume h: "ext (Const_c demo_env [- 1] np_int32 dev x) s = (Inr [c], sA) \<and>
        apply_op demo_env (Reshape (Some 0)) [x, c] sA = (Inr [f], s1)"
  from demo_flat_first [OF h [THEN conjunct1] h [THEN conjunct2]]
  obtain t where "fresh_flat s1 f t" by blast
  from demo_flat_again [OF this]
  show "\<exists>t c2 sC f2 s3. prim_of s1 f = Some t \<and>
           ext (Const_c demo_env [- 1] np_int32 (t_device t) f) s1 = (Inr [c2], sC) \<and>
           apply_op demo_env (Reshape (Some 0)) [f, c2] sC = (Inr [f2], s3) \<and>
           prim_of s3 f2 = Some t"
    by blast
qed

text \<open>
  Claim C3. A reduction called without an axis first flattens: it reads the device of
  \<open>x\<close>, builds the shape constant \<open>(-1,)\<close> and invokes the primitive \<open>Reshape\<close> with
  \<open>unspec_axis = 0\<close> on \<open>x\<close>; the single output of that is what \<open>flatten\<close> returns. It
  then converts this tensor and invokes the primitive \<open>Reduce\<close> with the mode and
  axis 0 on it, and returns the single output of \<open>Reduce\<close>. These two primitives are
  the only ones invoked, in this order, and a failure of \<open>flatten\<close> is the failure of the
  reduction. The mode is arbitrary, so this holds for \<open>sum\<close>, \<open>prod\<close>, \<open>min\<close>,
  \<open>max\<close> and \<open>mean\<close>. Consequently \<open>x.flatten().sum()\<close>, which flattens once more
  before reducing, has the same outcome as \<open>x.sum()\<close> (the same error, or results that
  denote the same tensor) on every engine that computes on values.
\<close>

theorem reduce_flattens_first:
  "(prim_of s x = Some t \<and>
    ext (Const_c E [- 1] np_int32 (t_device t) x) s = (Inr [c], sA) \<and>
    apply_op E (Reshape (Some 0)) [x, c] sA = (Inr [f], s1) \<and>
    ext (convert_inputs_c E [f]) s1 = (Inr [r], s2) \<longrightarrow>
      flatten E x s = (Inr f, s1) \<and>
      reduce E mode x None s = bnd (apply_op E (Reduce mode 0) [r]) unpack1 s2 \<and>
      calls (snd (reduce E mode x None s)) =
        calls s @ [(Reshape (Some 0), [x, c]), (Reduce mode 0, [r])] \<and>
      (\<forall>out s3. apply_op E (Reduce mode 0) [r] s2 = (Inr [out], s3) \<longrightarrow>
         reduce E mode x None s = (Inr out, s3))) \<and>
   (\<forall>e s'. flatten E x s = (Inl e, s') \<longrightarrow> reduce E mode x None s = (Inl e, s')) \<and>
   reduce E mode x None = bnd (flatten E x) (\<lambda>inp. reduce E mode inp (Some 0)) \<and>
   flatten E x = reshape E x [- 1] \<and>
   sum_m E = reduce E ''SUM'' \<and> prod_m E = reduce E ''PRODUCT'' \<and>
   min_m E = reduce E ''MIN'' \<and> max_m E = reduce E ''MAX'' \<and> mean_m E = reduce E ''MEAN'' \<and>
   (flat_fixed E \<and> conv_keeps E \<and> apply_by_value E (Reduce mode 0) \<longrightarrow>
      same_outcome (bnd (flatten E x) (\<lambda>f. reduce E mode f None) s) (reduce E mode x None s))"
proof (intro conjI impI allI)
  assume h: "prim_of s x = Some t \<and>
    ext (Const_c E [- 1] np_int32 (t_device t) x) s = (Inr [c], sA) \<and>
    apply_op E (Reshape (Some 0)) [x, c] sA = (Inr [f], s1) \<and>
    ext (convert_inputs_c E [f]) s1 = (Inr [r], s2)"
  then have h1: "prim_of s x = Some t"
    and h2: "ext (Const_c E [- 1] np_int32 (t_device t) x) s = (Inr [c], sA)"
    and h3: "apply_op E (Reshape (Some 0)) [x, c] sA = (Inr [f], s1)"
    and h4: "ext (convert_inputs_c E [f]) s1 = (Inr [r], s2)"
    by blast+
  show fl: "flatten E x s = (Inr f, s1)" by (rule flatten_ok(1) [OF h1 h2 h3])
  then show rd: "reduce E mode x None s = bnd (apply_op E (Reduce mode 0) [r]) unpack1 s2"
    by (simp add: reduce_None bnd_def reduce_converted [OF h4])
  from h4 have "calls s2 = calls s1" by (rule ext_calls)
  with flatten_ok(2) [OF h1 h2 h3]
  show "calls (snd (reduce E mode x None s)) =
        calls s @ [(Reshape (Some 0), [x, c]), (Reduce mode 0, [r])]"
    by (simp add: rd bnd_unpack1_state apply_op_calls)
  fix out s3
  assume "apply_op E (Reduce mode 0) [r] s2 = (Inr [out], s3)"
  then show "reduce E mode x None s = (Inr out, s3)"
    by (simp add: rd bnd_def unpack1_def ret_def)
next
  fix e s'
  assume "flatten E x s = (Inl e, s')"
  then show "reduce E mode x None s = (Inl e, s')"
    by (simp add: reduce_None bnd_def)
next
  show "reduce E mode x None = bnd (flatten E x) (\<lambda>inp. reduce E mode inp (Some 0))"
    by (rule reduce_None)
  show "flatten E x = reshape E x [- 1]"
    by (rule ext) (simp add: flatten_def)
  show "sum_m E = reduce E ''SUM''" by (rule ext) (simp add: sum_m_def)
  show "prod_m E = reduce E ''PRODUCT''" by (rule ext) (simp add: prod_m_def)
  show "min_m E = reduce E ''MIN''" by (rule ext) (simp add: min_m_def)
  show "max_m E = reduce E ''MAX''" by (rule ext) (simp add: max_m_def)
  show "mean_m E = reduce E ''MEAN''" by (rule ext) (simp add: mean_m_def)
next
  assume h: "flat_fixed E \<and> conv_keeps E \<and> apply_by_value E (Reduce mode 0)"
  then have ff: "flat_fixed E" and ck: "conv_keeps E"
    and av: "apply_by_value E (Reduce mode 0)"
    by blast+
  show "same_outcome (bnd (flatten E x) (\<lambda>f. reduce E mode f None) s) (reduce E mode x None s)"
  proof (cases "flatten E x s")
    case (Pair r0 s1)
    show ?thesis
    proof (cases r0)
      case (Inl e)
      with Pair show ?thesis by (simp add: reduce_None bnd_def same_outcome_def)
    next
      case (Inr f)
      with Pair have fl: "flatten E x s = (Inr f, s1)" by simp
      from flatten_Inr_cases [OF fl] obtain tx :: tensor and cx sx where
        p: "ext (Const_c E [- 1] np_int32 (t_device tx) x) s = (Inr [cx], sx)"
           "apply_op E (Reshape (Some 0)) [x, cx] sx = (Inr [f], s1)"
        by blast
      with ff obtain t' c2 sC f2 s3 where
        q: "prim_of s1 f = Some t'"
           "ext (Const_c E [- 1] np_int32 (t_device t') f) s1 = (Inr [c2], sC)"
           "apply_op E (Reshape (Some 0)) [f, c2] sC = (Inr [f2], s3)"
           "prim_of s3 f2 = Some t'"
        unfolding flat_fixed_def by blast
      have fl2: "flatten E f s1 = (Inr f2, s3)" by (rule flatten_ok(1) [OF q(1) q(2) q(3)])
      from ck q(1) obtain v sB where
        v: "ext (convert_inputs_c E [f]) s1 = (Inr [v], sB)" "prim_of sB v = Some t'"
        unfolding conv_keeps_def by blast
      from ck q(4) obtain v2 sD where
        v2: "ext (convert_inputs_c E [f2]) s3 = (Inr [v2], sD)" "prim_of sD v2 = Some t'"
        unfolding conv_keeps_def by blast
      from fl have r: "reduce E mode x None s =
          bnd (apply_op E (Reduce mode 0) [v]) unpack1 sB"
        by (simp add: reduce_None bnd_def reduce_converted [OF v(1)])
      from fl fl2 have l: "bnd (flatten E x) (\<lambda>f. reduce E mode f None) s =
          bnd (apply_op E (Reduce mode 0) [v2]) unpack1 sD"
        by (simp add: reduce_None bnd_def reduce_converted [OF v2(1)])
      from av v(2) v2(2)
      have "same_outcome (bnd (apply_op E (Reduce mode 0) [v2]) unpack1 sD)
          (bnd (apply_op E (Reduce mode 0) [v]) unpack1 sB)"
        unfolding apply_by_value_def by simp
      with l r show ?thesis by simp
    qed
  qed
qed

lemma demo_sum_steps:
  "fst (ext (Const_c demo_env [- 1] np_int32 ''cpu0'' (Wrapper 0)) demo_state) =
     Inr [Wrapper 9] \<and>
   fst (apply_op demo_env (Reshape (Some 0)) [Wrapper 0, Wrapper 9]
     (snd (ext (Const_c demo_env [- 1] np_int32 ''cpu0'' (Wrapper 0)) demo_state))) =
     Inr [Wrapper 11] \<and>
   fst (apply_op demo_env (Reduce ''SUM'' 0) [Wrapper 11]
     (snd (apply_op demo_env (Reshape (Some 0)) [Wrapper 0, Wrapper 9]
       (snd (ext (Const_c demo_env [- 1] np_int32 ''cpu0'' (Wrapper 0)) demo_state))))) =
     Inr [Wrapper 13] \<and>
   prim_of (snd (apply_op demo_env (Reduce ''SUM'' 0) [Wrapper 11]
     (snd (apply_op demo_env (Reshape (Some 0)) [Wrapper 0, Wrapper 9]
       (snd (ext (Const_c demo_env [- 1] np_int32 ''cpu0'' (Wrapper 0)) demo_state))))))
     (Wrapper 13) =
     Some \<lparr>t_dtype = np_int32, t_shape = [1], t_device = ''cpu0'', t_data = [PyInt 21]\<rparr>"
  by (simp add: monad_defs demo_defs)

lemma same_outcome_value:
  "same_outcome p q \<Longrightarrow> fst q = Inr b \<Longrightarrow> prim_of (snd q) b = Some v \<Longrightarrow>
   \<exists>a. fst p = Inr a \<and> prim_of (snd p) a = Some v"
  by (cases "fst p") (auto simp: same_outcome_def)

theorem reduce_flattens_first_witness:
  "fst (sum_m demo_env (Wrapper 0) None demo_state) = Inr (Wrapper 13) \<and>
   prim_of (snd (sum_m demo_env (Wrapper 0) None demo_state)) (Wrapper 13) =
     Some \<lparr>t_dtype = np_int32, t_shape = [1], t_device = ''cpu0'', t_data = [PyInt 21]\<rparr> \<and>
   calls (snd (sum_m demo_env (Wrapper 0) None demo_state)) =
     [(Reshape (Some 0), [Wrapper 0, Wrapper 9]), (Reduce ''SUM'' 0, [Wrapper 11])] \<and>
   (\<exists>a. fst (bnd (flatten demo_env (Wrapper 0)) (\<lambda>f. sum_m demo_env f None) demo_state) =
          Inr a \<and>
        prim_of (snd (bnd (flatten demo_env (Wrapper 0)) (\<lambda>f. sum_m demo_env f None)
          demo_state)) a =
        Some \<lparr>t_dtype = np_int32, t_shape = [1], t_device = ''cpu0'', t_data = [PyInt 21]\<rparr>)"
proof -
  define sA where "sA = snd (ext (Const_c demo_env [- 1] np_int32 ''cpu0'' (Wrapper 0)) demo_state)"
  define s1 where "s1 = snd (apply_op demo_env (Reshape (Some 0)) [Wrapper 0, Wrapper 9] sA)"
  define s3 where "s3 = snd (apply_op demo_env (Reduce ''SUM'' 0) [Wrapper 11] s1)"
  let ?t = "\<lparr>t_dtype = np_int32, t_shape = [2, 3], t_device = ''cpu0'',
             t_data = map PyInt [1, 2, 3, 4, 5, 6]\<rparr>"
  let ?v = "\<lparr>t_dtype = np_int32, t_shape = [1], t_device = ''cpu0'', t_data = [PyInt 21]\<rparr>"
  have hA: "ext (Const_c demo_env [- 1] np_int32 (t_device ?t) (Wrapper 0)) demo_state =
      (Inr [Wrapper 9], sA)"
    unfolding sA_def using demo_sum_steps by (simp add: prod_eq_iff)
  have h1: "apply_op demo_env (Reshape (Some 0)) [Wrapper 0, Wrapper 9] sA =
      (Inr [Wrapper 11], s1)"
    unfolding s1_def sA_def using demo_sum_steps by (simp add: prod_eq_iff)
  have h3: "apply_op demo_env (Reduce ''SUM'' 0) [Wrapper 11] s1 = (Inr [Wrapper 13], s3)"
    unfolding s3_def s1_def sA_def using demo_sum_steps by (simp add: prod_eq_iff)
  have v: "prim_of s3 (Wrapper 13) = Some ?v"
    unfolding s3_def s1_def sA_def using demo_sum_steps by simp
  note t = reduce_flattens_first [where E = demo_env and mode = "''SUM''" and x = "Wrapper 0"
      and s = demo_state and t = ?t and c = "Wrapper 9" and sA = sA and f = "Wrapper 11"
      and ?s1.0 = s1 and r = "Wrapper 11" and ?s2.0 = s1]
  from t [THEN conjunct1, THEN mp] demo_prim0 hA h1 h3 demo_convert
  have r: "reduce demo_env ''SUM'' (Wrapper 0) None demo_state = (Inr (Wrapper 13), s3)"
    and c: "calls (snd (reduce demo_env ''SUM'' (Wrapper 0) None demo_state)) =
        calls demo_state @ [(Reshape (Some 0), [Wrapper 0, Wrapper 9]),
          (Reduce ''SUM'' 0, [Wrapper 11])]"
    by blast+
  from t demo_flat_fixed demo_conv_keeps demo_apply_by_value
  have so: "same_outcome
      (bnd (flatten demo_env (Wrapper 0)) (\<lambda>f. reduce demo_env ''SUM'' f None) demo_state)
      (reduce demo_env ''SUM'' (Wrapper 0) None demo_state)"
    by blast
  have sm: "sum_m demo_env = reduce demo_env ''SUM''"
    by (rule ext) (simp add: sum_m_def)
  have c0: "calls demo_state = []" by (simp add: demo_state_def)
  from same_outcome_value [OF so, of "Wrapper 13" ?v] r v
  have "\<exists>a. fst (bnd (flatten demo_env (Wrapper 0)) (\<lambda>f. reduce demo_env ''SUM'' f None)
          demo_state) = Inr a \<and>
        prim_of (snd (bnd (flatten demo_env (Wrapper 0)) (\<lambda>f. reduce demo_env ''SUM'' f None)
          demo_state)) a = Some ?v"
    by simp
  with r v c c0 show ?thesis by (simp add: sm)
qed

end
